theory Spec2Isabelle
  imports Complex_Main "HOL-Library.AList" "HOL-Library.Char_ord" "HOL-Library.List_Lexorder"
    "HOL-Library.Product_Lexorder"
begin

section \<open>JavaScript values, objects and errors\<close>

text \<open>
  The persistence core passes plain objects around: an entity, a row and a filter are all
  objects whose properties are looked up by name, copied with the spread operator and
  enumerated in insertion order. An object is an association list with one entry per key,
  in insertion order. A string is the list of the bytes of its UTF-8 encoding. Numbers
  are exact rationals. The texts produced by the runtime's
  \<^verbatim>\<open>Date.prototype.toISOString\<close> and \<^verbatim>\<open>JSON.stringify\<close> are kept as tagged values
  (they are strings in the program): the built-in encoders are injective on valid dates
  and on JSON data, and \<^verbatim>\<open>new Date(text)\<close> and \<^verbatim>\<open>JSON.parse\<close> invert them.
\<close>

datatype json =
    JNull
  | JBool bool
  | JNum rat
  | JStr string
  | JArr "json list"
  | JObj "(string \<times> json) list"
  | JIso int           \<comment> \<open>a JSON string holding the ISO text of that time value\<close>
  | JQuoted json       \<comment> \<open>a JSON string holding the JSON text of that data\<close>

datatype jsval =
    Undefined
  | Null
  | Num rat
  | Str string
  | DateV int          \<comment> \<open>a valid Date object, milliseconds since the epoch\<close>
  | InvalidDate        \<comment> \<open>a Date object whose time value is NaN\<close>
  | Data json          \<comment> \<open>a plain object or array holding JSON data\<close>
  | IsoText int        \<comment> \<open>the string \<^verbatim>\<open>toISOString\<close> gives for that time value\<close>
  | JsonText json      \<comment> \<open>the string \<^verbatim>\<open>JSON.stringify\<close> gives for that data\<close>

type_synonym object = "(string \<times> jsval) list"

datatype error =
    TypeError
  | RangeError
  | SyntaxError
  | QueryError
  | ConstraintError
  | TaskNotFound
  | InvalidTransition
  | ValidationError
  | PostUpdateFetchFailed
  | MigrationFailed string
  | RollbackFailed string

text \<open>Property read \<^verbatim>\<open>obj.key\<close>: a missing property reads as \<^verbatim>\<open>undefined\<close>.\<close>

definition get :: "object \<Rightarrow> string \<Rightarrow> jsval" where
  "get obj k = (case map_of obj k of None \<Rightarrow> Undefined | Some v \<Rightarrow> v)"

text \<open>
  Object literal \<^verbatim>\<open>{...base, ...ext}\<close>: each property of \<open>ext\<close> overwrites the property of
  the same name where it stands, or is appended.
\<close>

definition spread :: "object \<Rightarrow> object \<Rightarrow> object" where
  "spread base ext = foldl (\<lambda>acc kv. AList.update (fst kv) (snd kv) acc) base ext"

text \<open>Rest destructuring \<^verbatim>\<open>const {k1, ..., kn, ...rest} = obj\<close>.\<close>

definition rest_without :: "string list \<Rightarrow> object \<Rightarrow> object" where
  "rest_without ks obj = filter (\<lambda>kv. fst kv \<notin> set ks) obj"

text \<open>JavaScript truthiness, as used by \<^verbatim>\<open>if (x)\<close>, \<^verbatim>\<open>x ? a : b\<close> and \<^verbatim>\<open>x || d\<close>.\<close>

fun truthy :: "jsval \<Rightarrow> bool" where
  "truthy Undefined = False"
| "truthy Null = False"
| "truthy (Num q) = (q \<noteq> 0)"
| "truthy (Str s) = (s \<noteq> [])"
| "truthy _ = True"

definition or_default :: "jsval \<Rightarrow> jsval \<Rightarrow> jsval" where
  "or_default v d = (if truthy v then v else d)"

text \<open>Decimal text of an integer, as a template literal renders an integral number.\<close>

fun digits :: "nat \<Rightarrow> string" where
  "digits n = (if n < 10 then [''0123456789'' ! n]
               else digits (n div 10) @ [''0123456789'' ! (n mod 10)])"

declare digits.simps [simp del]

definition int_text :: "int \<Rightarrow> string" where
  "int_text i = (if i < 0 then CHR ''-'' # digits (nat (- i)) else digits (nat i))"

text \<open>
  \<^verbatim>\<open>`${v}`\<close>: conversion of a value to a string inside a template literal. The text of
  \<^verbatim>\<open>undefined\<close>, of \<^verbatim>\<open>null\<close>, of a string and of an integral number below \<open>10\<^sup>2\<^sup>1\<close> in
  magnitude (its decimal numeral) is computed here. The text of any other value (a
  non-integral or larger number, a date, an array or object, a date or JSON text) is
  the runtime's and is taken from the parameter \<open>rt\<close>.
\<close>

fun to_text :: "(jsval \<Rightarrow> string) \<Rightarrow> jsval \<Rightarrow> string" where
  "to_text rt Undefined = ''undefined''"
| "to_text rt Null = ''null''"
| "to_text rt (Num q) =
     (case quotient_of q of (n, d) \<Rightarrow>
        if d = 1 \<and> \<bar>n\<bar> < 10 ^ 21 then int_text n else rt (Num q))"
| "to_text rt (Str s) = s"
| "to_text rt v = rt v"

text \<open>\<^verbatim>\<open>parts.join(sep)\<close>.\<close>

fun join :: "string \<Rightarrow> string list \<Rightarrow> string" where
  "join sep [] = []"
| "join sep [x] = x"
| "join sep (x # y # ys) = x @ sep @ join sep (y # ys)"

section \<open>Filter compiler of the base repository\<close>

text \<open>
  \<^verbatim>\<open>BaseSQLiteRepository.buildWhereClause\<close>: an absent filter compiles to the empty clause.
  Otherwise the four control keys are taken out by destructuring and every remaining
  property, in enumeration order, becomes one \<^verbatim>\<open>key = ?\<close> condition with its value bound.
\<close>

definition reserved_keys :: "string list" where
  "reserved_keys = [''limit'', ''offset'', ''orderBy'', ''orderDirection'']"

definition buildWhereClause :: "object option \<Rightarrow> string \<times> jsval list" where
  "buildWhereClause filter_opt =
     (case filter_opt of
        None \<Rightarrow> ([], [])
      | Some flt \<Rightarrow>
          let conditions = rest_without reserved_keys flt;
              whereConditions = map (\<lambda>kv. fst kv @ '' = ?'') conditions;
              params = map snd conditions;
              whereClause = (if length whereConditions > 0
                             then ''WHERE '' @ join '' AND '' whereConditions
                             else [])
          in (whereClause, params))"

text \<open>
  \<^verbatim>\<open>BaseSQLiteRepository.buildOrderAndLimit\<close>: \<^verbatim>\<open>ORDER BY\<close> is written when \<open>orderBy\<close> is
  truthy, with the direction falling back to \<^verbatim>\<open>ASC\<close>; \<^verbatim>\<open>LIMIT\<close> when \<open>limit\<close> is not
  \<^verbatim>\<open>undefined\<close>, and \<^verbatim>\<open>OFFSET\<close> inside that branch only.
\<close>

definition buildOrderAndLimit :: "(jsval \<Rightarrow> string) \<Rightarrow> object option \<Rightarrow> string" where
  "buildOrderAndLimit rt filter_opt =
     (case filter_opt of
        None \<Rightarrow> []
      | Some flt \<Rightarrow>
          let orderBy = get flt ''orderBy'';
              orderDirection = get flt ''orderDirection'';
              limit = get flt ''limit'';
              offset = get flt ''offset'';
              clause1 = (if truthy orderBy
                         then '' ORDER BY '' @ to_text rt orderBy @ '' ''
                              @ to_text rt (or_default orderDirection (Str ''ASC''))
                         else []);
              clause2 = (if limit \<noteq> Undefined
                         then clause1 @ '' LIMIT '' @ to_text rt limit
                              @ (if offset \<noteq> Undefined
                                 then '' OFFSET '' @ to_text rt offset else [])
                         else clause1)
          in clause2)"

section \<open>The table behind a repository\<close>

text \<open>
  The connection manager hands statements to SQLite. A table is modelled without a schema:
  a list of rows in storage order, each with the row identifier SQLite assigns and the
  columns it was given; a column a row does not have reads as NULL. The tables of this
  repository declare \<^verbatim>\<open>id TEXT PRIMARY KEY\<close>, so the \<open>id\<close> column is not an alias of the
  row identifier. The statements the base repository builds have the shapes below; each
  is given by its parts instead of its text.
\<close>

type_synonym table = "(int \<times> object) list"

record run_result =
  lastID :: int
  changes :: nat

definition is_null :: "jsval \<Rightarrow> bool" where
  "is_null v = (v = Null \<or> v = Undefined)"

text \<open>\<^verbatim>\<open>column = ?\<close>: a comparison with NULL on either side is never true.\<close>

definition sql_eq :: "jsval \<Rightarrow> jsval \<Rightarrow> bool" where
  "sql_eq a b = (\<not> is_null a \<and> \<not> is_null b \<and> a = b)"

definition bind_param :: "jsval \<Rightarrow> jsval" where
  "bind_param v = (if v = Undefined then Null else v)"

definition row_matches :: "(string \<times> jsval) list \<Rightarrow> object \<Rightarrow> bool" where
  "row_matches conds row = list_all (\<lambda>c. sql_eq (get row (fst c)) (snd c)) conds"

text \<open>
  Sort order of \<^verbatim>\<open>ORDER BY\<close>: NULL first, then numbers by value, then text. Date texts of
  four-digit years compare as their time values; JSON texts are not told apart. The
  direction is one of the two words the filter type allows; any other text is refused.
\<close>

fun sql_key :: "jsval \<Rightarrow> nat \<times> rat \<times> string" where
  "sql_key Undefined = (0, 0, [])"
| "sql_key Null = (0, 0, [])"
| "sql_key (Num q) = (1, q, [])"
| "sql_key (DateV t) = (1, of_int t, [])"
| "sql_key (IsoText t) = (2, of_int t, [])"
| "sql_key (Str s) = (3, 0, s)"
| "sql_key InvalidDate = (4, 0, [])"
| "sql_key (Data j) = (4, 0, [])"
| "sql_key (JsonText j) = (4, 0, [])"

text \<open>Stable insertion sort under a comparison, as \<^verbatim>\<open>Array.prototype.sort\<close> is stable.\<close>

fun insert_by :: "('a \<Rightarrow> 'a \<Rightarrow> bool) \<Rightarrow> 'a \<Rightarrow> 'a list \<Rightarrow> 'a list" where
  "insert_by le x [] = [x]"
| "insert_by le x (y # ys) = (if le x y then x # y # ys else y # insert_by le x ys)"

definition sort_by :: "('a \<Rightarrow> 'a \<Rightarrow> bool) \<Rightarrow> 'a list \<Rightarrow> 'a list" where
  "sort_by le xs = foldr (insert_by le) xs []"

definition apply_order :: "(string \<times> string) option \<Rightarrow> object list \<Rightarrow> error + object list" where
  "apply_order ord rows =
     (case ord of
        None \<Rightarrow> Inr rows
      | Some (col, dir) \<Rightarrow>
          if dir = ''ASC''
          then Inr (sort_by (\<lambda>a b. sql_key (get a col) \<le> sql_key (get b col)) rows)
          else if dir = ''DESC''
          then Inr (sort_by (\<lambda>a b. sql_key (get b col) \<le> sql_key (get a col)) rows)
          else Inl QueryError)"

definition as_integer :: "jsval \<Rightarrow> int option" where
  "as_integer v =
     (case v of
        Num q \<Rightarrow> (case quotient_of q of (n, d) \<Rightarrow> if d = 1 then Some n else None)
      | _ \<Rightarrow> None)"

text \<open>
  \<^verbatim>\<open>LIMIT n [OFFSET m]\<close>: a negative limit is no limit, a negative offset is zero, and a
  value that is not an integer is refused by SQLite. \<open>Undefined\<close> stands for a clause
  that was not written.
\<close>

definition apply_limit :: "jsval \<Rightarrow> jsval \<Rightarrow> 'a list \<Rightarrow> error + 'a list" where
  "apply_limit lmt ofs rows =
     (if lmt = Undefined then Inr rows
      else (case as_integer lmt of
        None \<Rightarrow> Inl QueryError
      | Some n \<Rightarrow>
          if ofs = Undefined then Inr (if n < 0 then rows else take (nat n) rows)
          else (case as_integer ofs of
            None \<Rightarrow> Inl QueryError
          | Some m \<Rightarrow> Inr (if n < 0 then drop (nat m) rows
                           else take (nat n) (drop (nat m) rows)))))"

text \<open>\<^verbatim>\<open>dbConnection.all\<close> on \<^verbatim>\<open>SELECT * FROM t [WHERE ...] [ORDER BY ...] [LIMIT ...]\<close>.\<close>

definition db_all ::
  "(string \<times> jsval) list \<Rightarrow> (string \<times> string) option \<Rightarrow> jsval \<Rightarrow> jsval \<Rightarrow> table
     \<Rightarrow> error + object list" where
  "db_all conds ord lmt ofs tbl =
     (case apply_order ord (filter (row_matches conds) (map snd tbl)) of
        Inl e \<Rightarrow> Inl e
      | Inr rows \<Rightarrow> apply_limit lmt ofs rows)"

text \<open>\<^verbatim>\<open>dbConnection.get\<close>: the first row of the result, or \<^verbatim>\<open>undefined\<close>.\<close>

definition db_get ::
  "(string \<times> jsval) list \<Rightarrow> (string \<times> string) option \<Rightarrow> jsval \<Rightarrow> jsval \<Rightarrow> table
     \<Rightarrow> error + object option" where
  "db_get conds ord lmt ofs tbl =
     (case db_all conds ord lmt ofs tbl of
        Inl e \<Rightarrow> Inl e
      | Inr [] \<Rightarrow> Inr None
      | Inr (r # rs) \<Rightarrow> Inr (Some r))"

definition next_rowid :: "table \<Rightarrow> int" where
  "next_rowid tbl = (if tbl = [] then 1 else Max (set (map fst tbl)) + 1)"

text \<open>\<^verbatim>\<open>dbConnection.run\<close> on \<^verbatim>\<open>INSERT INTO t (columns) VALUES (?, ...)\<close>.\<close>

definition db_insert :: "string list \<Rightarrow> jsval list \<Rightarrow> table \<Rightarrow> table \<times> run_result" where
  "db_insert columns vals tbl =
     (let rid = next_rowid tbl
      in (tbl @ [(rid, zip columns (map bind_param vals))],
          \<lparr>lastID = rid, changes = 1\<rparr>))"

text \<open>\<^verbatim>\<open>dbConnection.run\<close> on \<^verbatim>\<open>UPDATE t SET c = ?, ... WHERE pk = ?\<close>.\<close>

definition db_update ::
  "string list \<Rightarrow> jsval list \<Rightarrow> string \<Rightarrow> jsval \<Rightarrow> table \<Rightarrow> table \<times> run_result" where
  "db_update columns vals pk ident tbl =
     (let hit = (\<lambda>r. sql_eq (get (snd r) pk) ident);
          tbl' = map (\<lambda>r. if hit r
                           then (fst r, spread (snd r) (zip columns (map bind_param vals)))
                           else r) tbl
      in (tbl', \<lparr>lastID = 0, changes = length (filter hit tbl)\<rparr>))"

section \<open>The generic repository\<close>

text \<open>
  A concrete repository fixes the table name, the primary key and the two conversions.
  The conversions read the clock (\<^verbatim>\<open>new Date()\<close>), passed as the first argument, and may
  throw.
\<close>

record repo =
  tableName :: string
  primaryKey :: string
  entityToRow :: "int \<Rightarrow> object \<Rightarrow> error + object"
  rowToEntity :: "int \<Rightarrow> object \<Rightarrow> error + object"

text \<open>\<^verbatim>\<open>rows.map(row => this.rowToEntity(row))\<close>, stopping at the first throw.\<close>

fun map_rows :: "(object \<Rightarrow> error + object) \<Rightarrow> object list \<Rightarrow> error + object list" where
  "map_rows f [] = Inr []"
| "map_rows f (r # rs) =
     (case f r of
        Inl e \<Rightarrow> Inl e
      | Inr x \<Rightarrow> (case map_rows f rs of Inl e \<Rightarrow> Inl e | Inr xs \<Rightarrow> Inr (x # xs)))"

definition findById :: "repo \<Rightarrow> int \<Rightarrow> jsval \<Rightarrow> table \<Rightarrow> error + object option" where
  "findById R now ident tbl =
     (case db_get [(primaryKey R, ident)] None Undefined Undefined tbl of
        Inl e \<Rightarrow> Inl e
      | Inr None \<Rightarrow> Inr None
      | Inr (Some row) \<Rightarrow>
          (case rowToEntity R now row of Inl e \<Rightarrow> Inl e | Inr ent \<Rightarrow> Inr (Some ent)))"

text \<open>The parts of the statement the two compilers write for a filter.\<close>

definition where_conds :: "object option \<Rightarrow> (string \<times> jsval) list" where
  "where_conds filter_opt =
     (case filter_opt of None \<Rightarrow> [] | Some flt \<Rightarrow> rest_without reserved_keys flt)"

definition order_part ::
  "(jsval \<Rightarrow> string) \<Rightarrow> object option \<Rightarrow> (string \<times> string) option" where
  "order_part rt filter_opt =
     (case filter_opt of
        None \<Rightarrow> None
      | Some flt \<Rightarrow>
          if truthy (get flt ''orderBy'')
          then Some (to_text rt (get flt ''orderBy''),
                     to_text rt (or_default (get flt ''orderDirection'') (Str ''ASC'')))
          else None)"

definition limit_part :: "object option \<Rightarrow> jsval" where
  "limit_part filter_opt = (case filter_opt of None \<Rightarrow> Undefined | Some flt \<Rightarrow> get flt ''limit'')"

definition offset_part :: "object option \<Rightarrow> jsval" where
  "offset_part filter_opt = (case filter_opt of None \<Rightarrow> Undefined | Some flt \<Rightarrow> get flt ''offset'')"

text \<open>The statement text \<^verbatim>\<open>findAll\<close> and \<^verbatim>\<open>findOne\<close> build.\<close>

definition findAll_sql :: "repo \<Rightarrow> (jsval \<Rightarrow> string) \<Rightarrow> object option \<Rightarrow> string" where
  "findAll_sql R rt filter_opt =
     ''SELECT * FROM '' @ tableName R @ '' '' @ fst (buildWhereClause filter_opt)
       @ '' '' @ buildOrderAndLimit rt filter_opt"

definition findOne_sql :: "repo \<Rightarrow> object option \<Rightarrow> string" where
  "findOne_sql R filter_opt =
     ''SELECT * FROM '' @ tableName R @ '' '' @ fst (buildWhereClause filter_opt)
       @ '' LIMIT 1''"

definition findAll ::
  "repo \<Rightarrow> (jsval \<Rightarrow> string) \<Rightarrow> int \<Rightarrow> object option \<Rightarrow> table \<Rightarrow> error + object list" where
  "findAll R rt now filter_opt tbl =
     (case db_all (where_conds filter_opt) (order_part rt filter_opt)
                  (limit_part filter_opt) (offset_part filter_opt) tbl of
        Inl e \<Rightarrow> Inl e
      | Inr rows \<Rightarrow> map_rows (rowToEntity R now) rows)"

definition findOne :: "repo \<Rightarrow> int \<Rightarrow> object \<Rightarrow> table \<Rightarrow> error + object option" where
  "findOne R now flt tbl =
     (case db_get (where_conds (Some flt)) None (Num 1) Undefined tbl of
        Inl e \<Rightarrow> Inl e
      | Inr None \<Rightarrow> Inr None
      | Inr (Some row) \<Rightarrow>
          (case rowToEntity R now row of Inl e \<Rightarrow> Inl e | Inr ent \<Rightarrow> Inr (Some ent)))"

text \<open>
  \<^verbatim>\<open>create\<close>: the row is computed from the caller's entity, every column but \<open>id\<close> is
  inserted, and the caller's entity comes back with \<open>id\<close> set to the driver's \<open>lastID\<close>.
\<close>

definition create :: "repo \<Rightarrow> int \<Rightarrow> object \<Rightarrow> table \<Rightarrow> (error + object) \<times> table" where
  "create R now entity tbl =
     (case entityToRow R now entity of
        Inl e \<Rightarrow> (Inl e, tbl)
      | Inr row \<Rightarrow>
          let columns = filter (\<lambda>key. key \<noteq> ''id'') (map fst row);
              vals = map (get row) columns;
              (tbl', result) = db_insert columns vals tbl;
              createdEntity = AList.update ''id'' (Num (of_int (lastID result))) entity
          in (Inr createdEntity, tbl'))"

text \<open>
  \<^verbatim>\<open>update\<close>: with no column to set the current entity (or \<^verbatim>\<open>undefined\<close>) is returned;
  otherwise the columns are written to the rows with that key and the entity is read
  again, a missing one being an error.
\<close>

definition update ::
  "repo \<Rightarrow> int \<Rightarrow> jsval \<Rightarrow> object \<Rightarrow> table \<Rightarrow> (error + object option) \<times> table" where
  "update R now ident entity tbl =
     (case entityToRow R now entity of
        Inl e \<Rightarrow> (Inl e, tbl)
      | Inr row \<Rightarrow>
          let columns = filter (\<lambda>key. key \<noteq> ''id'' \<and> get row key \<noteq> Undefined) (map fst row)
          in if length columns = 0 then (findById R now ident tbl, tbl)
             else
               let vals = map (get row) columns;
                   (tbl', result) = db_update columns vals (primaryKey R) ident tbl
               in (case findById R now ident tbl' of
                     Inl e \<Rightarrow> (Inl e, tbl')
                   | Inr None \<Rightarrow> (Inl PostUpdateFetchFailed, tbl')
                   | Inr (Some updatedEntity) \<Rightarrow> (Inr (Some updatedEntity), tbl')))"

text \<open>The conversions of the base class: a shallow copy, and the row itself.\<close>

definition base_repo :: "string \<Rightarrow> string \<Rightarrow> repo" where
  "base_repo tname pk =
     \<lparr>tableName = tname, primaryKey = pk,
      entityToRow = (\<lambda>now entity. Inr entity),
      rowToEntity = (\<lambda>now row. Inr row)\<rparr>"

section \<open>Built-in conversions used by the entity repositories\<close>

definition then_do :: "error + 'a \<Rightarrow> ('a \<Rightarrow> error + 'b) \<Rightarrow> error + 'b" where
  "then_do r f = (case r of Inl e \<Rightarrow> Inl e | Inr x \<Rightarrow> f x)"

text \<open>\<^verbatim>\<open>d.toISOString()\<close>: throws on an invalid date and on a value that is no date.\<close>

fun toISOString :: "jsval \<Rightarrow> error + jsval" where
  "toISOString (DateV t) = Inr (IsoText t)"
| "toISOString InvalidDate = Inl RangeError"
| "toISOString _ = Inl TypeError"

text \<open>\<^verbatim>\<open>new Date(v)\<close>: a text that is not a date text gives an invalid date.\<close>

fun new_Date :: "jsval \<Rightarrow> jsval" where
  "new_Date (IsoText t) = DateV t"
| "new_Date (DateV t) = DateV t"
| "new_Date (Num q) = DateV (if q < 0 then - \<lfloor>- q\<rfloor> else \<lfloor>q\<rfloor>)"
| "new_Date Null = DateV 0"
| "new_Date _ = InvalidDate"

fun to_json :: "jsval \<Rightarrow> json" where
  "to_json Undefined = JNull"
| "to_json Null = JNull"
| "to_json (Num q) = JNum q"
| "to_json (Str s) = JStr s"
| "to_json (DateV t) = JIso t"
| "to_json InvalidDate = JNull"
| "to_json (Data j) = j"
| "to_json (IsoText t) = JIso t"
| "to_json (JsonText j) = JQuoted j"

fun from_json :: "json \<Rightarrow> jsval" where
  "from_json JNull = Null"
| "from_json (JNum q) = Num q"
| "from_json (JStr s) = Str s"
| "from_json (JIso t) = IsoText t"
| "from_json (JQuoted j) = JsonText j"
| "from_json j = Data j"

text \<open>\<^verbatim>\<open>JSON.stringify(v)\<close> gives \<^verbatim>\<open>undefined\<close> for \<^verbatim>\<open>undefined\<close> and a text otherwise.\<close>

definition JSON_stringify :: "jsval \<Rightarrow> jsval" where
  "JSON_stringify v = (if v = Undefined then Undefined else JsonText (to_json v))"

text \<open>
  \<^verbatim>\<open>JSON.parse(v)\<close>: the argument is converted to a string first, so a number and
  \<^verbatim>\<open>null\<close> parse to themselves; a text that is not JSON is a syntax error.
\<close>

fun JSON_parse :: "jsval \<Rightarrow> error + jsval" where
  "JSON_parse (JsonText j) = Inr (from_json j)"
| "JSON_parse (Num q) = Inr (Num q)"
| "JSON_parse Null = Inr Null"
| "JSON_parse _ = Inl SyntaxError"

definition iso_or :: "jsval \<Rightarrow> jsval \<Rightarrow> error + jsval" where
  "iso_or d alt = (if truthy d then toISOString d else Inr alt)"

definition parse_or :: "jsval \<Rightarrow> jsval \<Rightarrow> error + jsval" where
  "parse_or v alt = (if truthy v then JSON_parse v else Inr alt)"

definition date_or :: "jsval \<Rightarrow> jsval \<Rightarrow> jsval" where
  "date_or v alt = (if truthy v then new_Date v else alt)"

section \<open>Task repository\<close>

text \<open>
  \<^verbatim>\<open>TaskRepository.entityToRow\<close>: the entity is copied, \<open>metadata\<close> becomes JSON text,
  \<open>dueDate\<close> and \<open>createdAt\<close> become date texts (the clock standing in for a missing
  \<open>createdAt\<close>), and \<open>updatedAt\<close> is always the clock.
\<close>

definition task_entityToRow :: "int \<Rightarrow> object \<Rightarrow> error + object" where
  "task_entityToRow now task =
     then_do (iso_or (get task ''dueDate'') Null) (\<lambda>dueDate.
     then_do (iso_or (get task ''createdAt'') (IsoText now)) (\<lambda>createdAt.
       Inr (spread task
         [(''metadata'', if truthy (get task ''metadata'')
                          then JSON_stringify (get task ''metadata'') else Null),
          (''dueDate'', dueDate),
          (''createdAt'', createdAt),
          (''updatedAt'', IsoText now)])))"

text \<open>The default title is the UTF-8 text of the source's five-character literal.\<close>

definition default_title :: string where
  "default_title = map char_of
     [231, 132, 161, 233, 161, 140, 227, 130, 191, 227, 130, 185, 227, 130, 175 :: nat]"

definition task_defaults :: "int \<Rightarrow> object" where
  "task_defaults now =
     [(''id'', Str []),
      (''title'', Str default_title),
      (''description'', Str []),
      (''type'', Str ''DEVELOPMENT''),
      (''status'', Str ''CREATED''),
      (''priority'', Str ''MEDIUM''),
      (''metadata'', Data (JObj [])),
      (''createdAt'', DateV now),
      (''updatedAt'', DateV now)]"

definition task_rowToEntity :: "int \<Rightarrow> object \<Rightarrow> error + object" where
  "task_rowToEntity now row =
     then_do (parse_or (get row ''metadata'') (get (task_defaults now) ''metadata''))
       (\<lambda>metadata.
       Inr (spread (spread (task_defaults now) row)
         [(''id'', or_default (get row ''id'') (get (task_defaults now) ''id'')),
          (''metadata'', metadata),
          (''dueDate'', date_or (get row ''dueDate'') Undefined),
          (''createdAt'', date_or (get row ''createdAt'') (get (task_defaults now) ''createdAt'')),
          (''updatedAt'', date_or (get row ''updatedAt'') (get (task_defaults now) ''updatedAt''))]))"

definition TaskRepository :: repo where
  "TaskRepository =
     \<lparr>tableName = ''tasks'', primaryKey = ''id'',
      entityToRow = task_entityToRow, rowToEntity = task_rowToEntity\<rparr>"

section \<open>Task service\<close>

datatype TaskStatus = CREATED | PLANNED | IN_PROGRESS | BLOCKED | REVIEW | COMPLETED | CANCELLED

text \<open>The enum's members are their own names as strings.\<close>

fun status_name :: "TaskStatus \<Rightarrow> string" where
  "status_name CREATED = ''CREATED''"
| "status_name PLANNED = ''PLANNED''"
| "status_name IN_PROGRESS = ''IN_PROGRESS''"
| "status_name BLOCKED = ''BLOCKED''"
| "status_name REVIEW = ''REVIEW''"
| "status_name COMPLETED = ''COMPLETED''"
| "status_name CANCELLED = ''CANCELLED''"

definition validTransitions :: "(string \<times> string list) list" where
  "validTransitions =
     [(''CREATED'', [''PLANNED'', ''IN_PROGRESS'', ''CANCELLED'']),
      (''PLANNED'', [''IN_PROGRESS'', ''BLOCKED'', ''CANCELLED'']),
      (''IN_PROGRESS'', [''BLOCKED'', ''REVIEW'', ''COMPLETED'', ''CANCELLED'']),
      (''BLOCKED'', [''IN_PROGRESS'', ''CANCELLED'']),
      (''REVIEW'', [''IN_PROGRESS'', ''COMPLETED'', ''CANCELLED'']),
      (''COMPLETED'', [''IN_PROGRESS'', ''CANCELLED'']),
      (''CANCELLED'', [''CREATED'', ''PLANNED''])]"

text \<open>
  \<^verbatim>\<open>validateStatusTransition\<close>: equal statuses pass; otherwise the new status has to be in
  the list of the current one, a status without a list having the empty list.
\<close>

definition validateStatusTransition :: "jsval \<Rightarrow> jsval \<Rightarrow> error + bool" where
  "validateStatusTransition currentStatus newStatus =
     (if currentStatus = newStatus then Inr True
      else
        let allowedTransitions =
              (case currentStatus of
                 Str c \<Rightarrow> (case map_of validTransitions c of Some l \<Rightarrow> l | None \<Rightarrow> [])
               | _ \<Rightarrow> [])
        in if newStatus \<notin> Str ` set allowedTransitions then Inl InvalidTransition
           else Inr True)"

datatype issue =
    TitleRequired | TypeRequired | StatusRequired | PriorityRequired
  | TitleLength | DueDateInPast

text \<open>
  \<^verbatim>\<open>s.length\<close> counts UTF-16 code units: one for each character, two for a character
  outside the basic plane. In the UTF-8 bytes every character has one byte that is not
  a continuation byte (\<open>0x80\<close> to \<open>0xBF\<close>), and the characters outside the basic plane
  are those whose first byte is \<open>0xF0\<close> or more.
\<close>

definition utf16_length :: "string \<Rightarrow> nat" where
  "utf16_length s =
     length (filter (\<lambda>c. (of_char c :: nat) < 128 \<or> 192 \<le> (of_char c :: nat)) s)
     + length (filter (\<lambda>c. 240 \<le> (of_char c :: nat)) s)"

text \<open>
  \<^verbatim>\<open>v.length\<close> of a string; other values have no length here. The characters of a date
  text or JSON text are the runtime's (the parameter \<open>rt\<close> of \<open>to_text\<close>).
\<close>

definition str_length :: "(jsval \<Rightarrow> string) \<Rightarrow> jsval \<Rightarrow> nat option" where
  "str_length rt v =
     (case v of
        Str s \<Rightarrow> Some (utf16_length s)
      | IsoText t \<Rightarrow> Some (utf16_length (to_text rt v))
      | JsonText j \<Rightarrow> Some (utf16_length (to_text rt v))
      | _ \<Rightarrow> None)"

text \<open>\<^verbatim>\<open>v < new Date()\<close>: dates and numbers compare by value, anything else is not less.\<close>

definition before_now :: "jsval \<Rightarrow> int \<Rightarrow> bool" where
  "before_now v now =
     (case v of DateV t \<Rightarrow> t < now | Num q \<Rightarrow> q < of_int now | _ \<Rightarrow> False)"

definition validateTask :: "(jsval \<Rightarrow> string) \<Rightarrow> int \<Rightarrow> object \<Rightarrow> issue list" where
  "validateTask rt now task =
     (if \<not> truthy (get task ''id'')
      then (if \<not> truthy (get task ''title'') then [TitleRequired] else [])
         @ (if \<not> truthy (get task ''type'') then [TypeRequired] else [])
         @ (if \<not> truthy (get task ''status'') then [StatusRequired] else [])
         @ (if \<not> truthy (get task ''priority'') then [PriorityRequired] else [])
      else [])
     @ (if truthy (get task ''title'')
           \<and> (case str_length rt (get task ''title'') of
                 Some n \<Rightarrow> n < 3 \<or> n > 100 | None \<Rightarrow> False)
        then [TitleLength] else [])
     @ (if truthy (get task ''dueDate'') \<and> before_now (get task ''dueDate'') now
        then [DueDateInPast] else [])"

definition getTask :: "int \<Rightarrow> jsval \<Rightarrow> table \<Rightarrow> error + object" where
  "getTask now ident tbl =
     (case findById TaskRepository now ident tbl of
        Inl e \<Rightarrow> Inl e
      | Inr None \<Rightarrow> Inl TaskNotFound
      | Inr (Some task) \<Rightarrow> Inr task)"

definition updateTask ::
  "(jsval \<Rightarrow> string) \<Rightarrow> int \<Rightarrow> jsval \<Rightarrow> object \<Rightarrow> table
     \<Rightarrow> (error + object option) \<times> table" where
  "updateTask rt now ident updates tbl =
     (case findById TaskRepository now ident tbl of
        Inl e \<Rightarrow> (Inl e, tbl)
      | Inr None \<Rightarrow> (Inl TaskNotFound, tbl)
      | Inr (Some existingTask) \<Rightarrow>
          if validateTask rt now (spread existingTask updates) \<noteq> []
          then (Inl ValidationError, tbl)
          else update TaskRepository now ident
                 (spread updates [(''updatedAt'', DateV now)]) tbl)"

definition updateStatus ::
  "(jsval \<Rightarrow> string) \<Rightarrow> int \<Rightarrow> jsval \<Rightarrow> jsval \<Rightarrow> table
     \<Rightarrow> (error + object option) \<times> table" where
  "updateStatus rt now taskId status tbl =
     (case getTask now taskId tbl of
        Inl e \<Rightarrow> (Inl e, tbl)
      | Inr task \<Rightarrow>
          (case validateStatusTransition (get task ''status'') status of
             Inl e \<Rightarrow> (Inl e, tbl)
           | Inr ok \<Rightarrow> updateTask rt now taskId [(''status'', status)] tbl))"

section \<open>Memory repository\<close>

text \<open>
  \<^verbatim>\<open>MemoryRepository.entityToRow\<close>: \<open>timestamp\<close> is converted without a guard, the three
  structured fields become JSON text, and the two bookkeeping dates are treated as in
  the task repository.
\<close>

definition memory_entityToRow :: "int \<Rightarrow> object \<Rightarrow> error + object" where
  "memory_entityToRow now memory =
     then_do (toISOString (get memory ''timestamp'')) (\<lambda>timestamp.
     then_do (iso_or (get memory ''lastAccessed'') Null) (\<lambda>lastAccessed.
     then_do (iso_or (get memory ''createdAt'') (IsoText now)) (\<lambda>createdAt.
       Inr (spread memory
         [(''timestamp'', timestamp),
          (''lastAccessed'', lastAccessed),
          (''tags'', JSON_stringify (get memory ''tags'')),
          (''metadata'', JSON_stringify (get memory ''metadata'')),
          (''relationships'', JSON_stringify (get memory ''relationships'')),
          (''createdAt'', createdAt),
          (''updatedAt'', IsoText now)]))))"

definition memory_defaults :: "int \<Rightarrow> object" where
  "memory_defaults now =
     [(''id'', Str []),
      (''type'', Str ''CONCEPT''),
      (''content'', Str []),
      (''context'', Str []),
      (''importance'', Num (1 / 2)),
      (''confidence'', Num (1 / 2)),
      (''source'', Str ''system''),
      (''timestamp'', DateV now),
      (''accessCount'', Num 0),
      (''tags'', Data (JArr [])),
      (''metadata'', Data (JObj [])),
      (''relationships'', Data (JArr [])),
      (''createdAt'', DateV now),
      (''updatedAt'', DateV now)]"

definition memory_rowToEntity :: "int \<Rightarrow> object \<Rightarrow> error + object" where
  "memory_rowToEntity now row =
     then_do (parse_or (get row ''tags'') (get (memory_defaults now) ''tags'')) (\<lambda>tags.
     then_do (parse_or (get row ''metadata'') (get (memory_defaults now) ''metadata''))
       (\<lambda>metadata.
     then_do (parse_or (get row ''relationships'') (get (memory_defaults now) ''relationships''))
       (\<lambda>relationships.
       Inr (spread (spread (memory_defaults now) row)
         [(''id'', or_default (get row ''id'') (get (memory_defaults now) ''id'')),
          (''timestamp'', date_or (get row ''timestamp'') (get (memory_defaults now) ''timestamp'')),
          (''lastAccessed'', date_or (get row ''lastAccessed'') Undefined),
          (''tags'', tags),
          (''metadata'', metadata),
          (''relationships'', relationships),
          (''createdAt'', date_or (get row ''createdAt'') (get (memory_defaults now) ''createdAt'')),
          (''updatedAt'', date_or (get row ''updatedAt'') (get (memory_defaults now) ''updatedAt''))]))))"

definition MemoryRepository :: repo where
  "MemoryRepository =
     \<lparr>tableName = ''memories'', primaryKey = ''id'',
      entityToRow = memory_entityToRow, rowToEntity = memory_rowToEntity\<rparr>"

subsection \<open>Lexical similarity search\<close>

definition is_word_char :: "char \<Rightarrow> bool" where
  "is_word_char c =
     (let n = (of_char c :: nat)
      in (48 \<le> n \<and> n \<le> 57) \<or> (65 \<le> n \<and> n \<le> 90) \<or> (97 \<le> n \<and> n \<le> 122) \<or> n = 95)"

definition lower_char :: "char \<Rightarrow> char" where
  "lower_char c =
     (let n = (of_char c :: nat) in if 65 \<le> n \<and> n \<le> 90 then char_of (n + 32) else c)"

text \<open>
  \<^verbatim>\<open>content.toLowerCase()\<close> as far as the word characters go. The letters A to Z go to a
  to z. Two characters outside ASCII have a lower case that is, or starts with, an
  ASCII letter: the Kelvin sign U+212A (bytes E2 84 AA) gives \<open>k\<close>, and U+0130 (bytes
  C4 B0) gives \<open>i\<close> followed by U+0307 (bytes CC 87). Every other character outside
  ASCII has a lower case outside ASCII; its bytes are left as they are, since the split
  below treats any byte from \<open>0x80\<close> on as a separator.
\<close>

fun lower_text :: "string \<Rightarrow> string" where
  "lower_text (a # b # c # cs) =
     (if a = CHR 0xE2 \<and> b = CHR 0x84 \<and> c = CHR 0xAA then CHR ''k'' # lower_text cs
      else if a = CHR 0xC4 \<and> b = CHR 0xB0
      then CHR ''i'' # CHR 0xCC # CHR 0x87 # lower_text (c # cs)
      else lower_char a # lower_text (b # c # cs))"
| "lower_text [a, b] =
     (if a = CHR 0xC4 \<and> b = CHR 0xB0 then [CHR ''i'', CHR 0xCC, CHR 0x87]
      else [lower_char a, lower_char b])"
| "lower_text [a] = [lower_char a]"
| "lower_text [] = []"

text \<open>
  Splitting at every non-word character; the empty pieces between neighbouring
  separators are the ones the source's filter discards after \<^verbatim>\<open>split(/\W+/)\<close>.
\<close>

fun split_words :: "string \<Rightarrow> string \<Rightarrow> string list" where
  "split_words cur [] = [cur]"
| "split_words cur (c # cs) =
     (if is_word_char c then split_words (cur @ [c]) cs else cur # split_words [] cs)"

definition tokenize :: "string \<Rightarrow> string list" where
  "tokenize content = filter (\<lambda>t. length t > 0) (split_words [] (lower_text content))"











section \<open>Time entry repository\<close>

text \<open>
  \<^verbatim>\<open>TimeEntryRepository.entityToRow\<close>: \<open>startTime\<close> is converted without a guard, a
  missing \<open>tags\<close> or \<open>metadata\<close> is written as the text of the empty array or object.
\<close>

definition timeEntry_entityToRow :: "int \<Rightarrow> object \<Rightarrow> error + object" where
  "timeEntry_entityToRow now timeEntry =
     then_do (toISOString (get timeEntry ''startTime'')) (\<lambda>startTime.
     then_do (iso_or (get timeEntry ''endTime'') Null) (\<lambda>endTime.
     then_do (iso_or (get timeEntry ''createdAt'') (IsoText now)) (\<lambda>createdAt.
       Inr (spread timeEntry
         [(''startTime'', startTime),
          (''endTime'', endTime),
          (''tags'', if truthy (get timeEntry ''tags'')
                      then JSON_stringify (get timeEntry ''tags'') else JsonText (JArr [])),
          (''metadata'', if truthy (get timeEntry ''metadata'')
                          then JSON_stringify (get timeEntry ''metadata'')
                          else JsonText (JObj [])),
          (''createdAt'', createdAt),
          (''updatedAt'', IsoText now)]))))"

definition timeEntry_defaults :: "int \<Rightarrow> object" where
  "timeEntry_defaults now =
     [(''id'', Str []),
      (''startTime'', DateV now),
      (''duration'', Num 0),
      (''category'', Str ''DEVELOPMENT''),
      (''description'', Str []),
      (''tags'', Data (JArr [])),
      (''metadata'', Data (JObj [])),
      (''createdAt'', DateV now),
      (''updatedAt'', DateV now)]"

definition timeEntry_rowToEntity :: "int \<Rightarrow> object \<Rightarrow> error + object" where
  "timeEntry_rowToEntity now row =
     then_do (parse_or (get row ''tags'') (get (timeEntry_defaults now) ''tags'')) (\<lambda>tags.
     then_do (parse_or (get row ''metadata'') (get (timeEntry_defaults now) ''metadata''))
       (\<lambda>metadata.
       Inr (spread (spread (timeEntry_defaults now) row)
         [(''id'', or_default (get row ''id'') (get (timeEntry_defaults now) ''id'')),
          (''startTime'',
             date_or (get row ''startTime'') (get (timeEntry_defaults now) ''startTime'')),
          (''endTime'', date_or (get row ''endTime'') Undefined),
          (''tags'', tags),
          (''metadata'', metadata),
          (''createdAt'',
             date_or (get row ''createdAt'') (get (timeEntry_defaults now) ''createdAt'')),
          (''updatedAt'',
             date_or (get row ''updatedAt'') (get (timeEntry_defaults now) ''updatedAt''))])))"

definition TimeEntryRepository :: repo where
  "TimeEntryRepository =
     \<lparr>tableName = ''time_entries'', primaryKey = ''id'',
      entityToRow = timeEntry_entityToRow, rowToEntity = timeEntry_rowToEntity\<rparr>"

section \<open>Notification repository\<close>

text \<open>
  \<^verbatim>\<open>NotificationRepository.entityToRow\<close>: \<open>timestamp\<close> is converted without a guard,
  a missing \<open>expiresAt\<close> or \<open>actions\<close> is written as NULL and a missing \<open>metadata\<close> as
  the text of the empty object.
\<close>

definition notification_entityToRow :: "int \<Rightarrow> object \<Rightarrow> error + object" where
  "notification_entityToRow now notification =
     then_do (toISOString (get notification ''timestamp'')) (\<lambda>timestamp.
     then_do (iso_or (get notification ''expiresAt'') Null) (\<lambda>expiresAt.
     then_do (iso_or (get notification ''createdAt'') (IsoText now)) (\<lambda>createdAt.
       Inr (spread notification
         [(''timestamp'', timestamp),
          (''expiresAt'', expiresAt),
          (''actions'', if truthy (get notification ''actions'')
                         then JSON_stringify (get notification ''actions'') else Null),
          (''metadata'', if truthy (get notification ''metadata'')
                          then JSON_stringify (get notification ''metadata'')
                          else JsonText (JObj [])),
          (''createdAt'', createdAt),
          (''updatedAt'', IsoText now)]))))"

definition notification_defaults :: "int \<Rightarrow> object" where
  "notification_defaults now =
     [(''id'', Str []),
      (''type'', Str ''SYSTEM''),
      (''priority'', Str ''MEDIUM''),
      (''title'', Str []),
      (''message'', Str []),
      (''source'', Str ''system''),
      (''timestamp'', DateV now),
      (''status'', Str ''PENDING''),
      (''metadata'', Data (JObj [])),
      (''createdAt'', DateV now),
      (''updatedAt'', DateV now)]"

definition notification_rowToEntity :: "int \<Rightarrow> object \<Rightarrow> error + object" where
  "notification_rowToEntity now row =
     then_do (parse_or (get row ''actions'') Undefined) (\<lambda>actions.
     then_do (parse_or (get row ''metadata'') (get (notification_defaults now) ''metadata''))
       (\<lambda>metadata.
       Inr (spread (spread (notification_defaults now) row)
         [(''id'', or_default (get row ''id'') (get (notification_defaults now) ''id'')),
          (''timestamp'',
             date_or (get row ''timestamp'') (get (notification_defaults now) ''timestamp'')),
          (''expiresAt'', date_or (get row ''expiresAt'') Undefined),
          (''actions'', actions),
          (''metadata'', metadata),
          (''createdAt'',
             date_or (get row ''createdAt'') (get (notification_defaults now) ''createdAt'')),
          (''updatedAt'',
             date_or (get row ''updatedAt'') (get (notification_defaults now) ''updatedAt''))])))"

definition NotificationRepository :: repo where
  "NotificationRepository =
     \<lparr>tableName = ''notifications'', primaryKey = ''id'',
      entityToRow = notification_entityToRow, rowToEntity = notification_rowToEntity\<rparr>"

section \<open>Migration engine\<close>

text \<open>
  The engine's state: the units loaded last (\<^verbatim>\<open>this.migrations\<close>), the \<open>migrations\<close>
  ledger table (absent until created), the rest of the database, on which the units'
  \<open>up\<close> and \<open>down\<close> operate, and the log. A unit's operation returns the database it
  leaves behind together with the error it threw, if any.
\<close>

datatype log_msg =
    DirMissing
  | NeedsUpAndDown string
  | BadFileName string
  | LoadFailed string
  | Loaded nat
  | AppliedQueryFailed
  | RecordFailed string
  | RemoveFailed string
  | NothingToApply
  | ApplyingCount nat
  | Applying string
  | ApplySucceeded string
  | ApplyFailed string
  | AllApplied
  | NothingToRollback
  | TargetNotFound string
  | RollingBackCount nat
  | FileNotFound string
  | RollingBack string
  | RollbackSucceeded string
  | RollbackFailedFor string
  | RollbackDone
  | StatusReport nat nat

datatype level = INFO | WARN | ERROR

fun level_of :: "log_msg \<Rightarrow> level" where
  "level_of DirMissing = WARN"
| "level_of (NeedsUpAndDown f) = WARN"
| "level_of (BadFileName f) = WARN"
| "level_of (FileNotFound f) = WARN"
| "level_of (LoadFailed f) = ERROR"
| "level_of AppliedQueryFailed = ERROR"
| "level_of (RecordFailed f) = ERROR"
| "level_of (RemoveFailed f) = ERROR"
| "level_of (ApplyFailed f) = ERROR"
| "level_of (TargetNotFound t) = ERROR"
| "level_of (RollbackFailedFor f) = ERROR"
| "level_of _ = INFO"

record MigrationRecord =
  rec_id :: string
  rec_filename :: string
  applied_at :: int

record 'db Migration =
  m_id :: string
  m_filename :: string
  up :: "'db \<Rightarrow> error option \<times> 'db"
  down :: "'db \<Rightarrow> error option \<times> 'db"

datatype 'db import_result =
    ImportFails
  | Module "('db \<Rightarrow> error option \<times> 'db) option" "('db \<Rightarrow> error option \<times> 'db) option"

record 'db engine =
  migrations :: "'db Migration list"
  ledger :: "MigrationRecord list option"
  database :: 'db
  logs :: "log_msg list"

definition say :: "log_msg \<Rightarrow> 'db engine \<Rightarrow> 'db engine" where
  "say msg s = s\<lparr>logs := logs s @ [msg]\<rparr>"

text \<open>\<^verbatim>\<open>CREATE TABLE IF NOT EXISTS migrations\<close>.\<close>

definition initMigrationTable :: "'db engine \<Rightarrow> 'db engine" where
  "initMigrationTable s = (case ledger s of None \<Rightarrow> s\<lparr>ledger := Some []\<rparr> | Some l \<Rightarrow> s)"

definition endsWith :: "string \<Rightarrow> string \<Rightarrow> bool" where
  "endsWith file suf = (length suf \<le> length file \<and> drop (length file - length suf) file = suf)"

text \<open>\<^verbatim>\<open>file.split('-')[0]\<close>.\<close>

definition id_of_file :: "string \<Rightarrow> string" where
  "id_of_file file = takeWhile (\<lambda>c. c \<noteq> CHR ''-'') file"

definition load_file ::
  "string \<times> 'db import_result \<Rightarrow> 'db Migration list \<times> log_msg list
     \<Rightarrow> 'db Migration list \<times> log_msg list" where
  "load_file f acc =
     (case snd f of
        ImportFails \<Rightarrow> (fst acc, snd acc @ [LoadFailed (fst f)])
      | Module (Some u) (Some d) \<Rightarrow>
          if id_of_file (fst f) = [] then (fst acc, snd acc @ [BadFileName (fst f)])
          else (fst acc @ [\<lparr>m_id = id_of_file (fst f), m_filename = fst f, up = u, down = d\<rparr>],
                snd acc)
      | Module _ _ \<Rightarrow> (fst acc, snd acc @ [NeedsUpAndDown (fst f)]))"

text \<open>
  \<^verbatim>\<open>loadMigrations\<close>: a missing directory leaves the loaded units as they were. Otherwise
  the script files are taken in name order, imported, and the units sorted by id
  (code order of the characters standing in for \<^verbatim>\<open>localeCompare\<close>).
\<close>

definition loadMigrations ::
  "(string \<times> 'db import_result) list option \<Rightarrow> 'db engine \<Rightarrow> 'db engine" where
  "loadMigrations dir s =
     (case dir of
        None \<Rightarrow> say DirMissing s
      | Some entries \<Rightarrow>
          let files = sort_key fst
                (filter (\<lambda>f. endsWith (fst f) ''.ts'' \<or> endsWith (fst f) ''.js'') entries);
              loaded = foldl (\<lambda>acc f. load_file f acc) ([], logs s) files;
              sorted = sort_key m_id (fst loaded)
          in s\<lparr>migrations := sorted, logs := snd loaded @ [Loaded (length sorted)]\<rparr>)"

text \<open>\<^verbatim>\<open>SELECT * FROM migrations ORDER BY id\<close>.\<close>

definition getAppliedMigrations :: "'db engine \<Rightarrow> error + MigrationRecord list" where
  "getAppliedMigrations s =
     (case ledger s of None \<Rightarrow> Inl QueryError | Some l \<Rightarrow> Inr (sort_key rec_id l))"

definition getPendingMigrations :: "'db engine \<Rightarrow> error + 'db Migration list" where
  "getPendingMigrations s =
     (case getAppliedMigrations s of
        Inl e \<Rightarrow> Inl e
      | Inr appliedMigrations \<Rightarrow>
          Inr (filter (\<lambda>m. m_id m \<notin> set (map rec_id appliedMigrations)) (migrations s)))"

text \<open>\<^verbatim>\<open>INSERT INTO migrations (id, filename)\<close>: the id is the table's primary key.\<close>

definition recordMigration :: "int \<Rightarrow> 'db Migration \<Rightarrow> 'db engine \<Rightarrow> error option \<times> 'db engine" where
  "recordMigration now m s =
     (case ledger s of
        None \<Rightarrow> (Some QueryError, say (RecordFailed (m_filename m)) s)
      | Some l \<Rightarrow>
          if m_id m \<in> set (map rec_id l)
          then (Some ConstraintError, say (RecordFailed (m_filename m)) s)
          else (None, s\<lparr>ledger := Some (l @ [\<lparr>rec_id = m_id m, rec_filename = m_filename m,
                                               applied_at = now\<rparr>])\<rparr>))"

text \<open>\<^verbatim>\<open>DELETE FROM migrations WHERE id = ?\<close>.\<close>

definition removeMigrationRecord :: "string \<Rightarrow> 'db engine \<Rightarrow> error option \<times> 'db engine" where
  "removeMigrationRecord migrationId s =
     (case ledger s of
        None \<Rightarrow> (Some QueryError, say (RemoveFailed migrationId) s)
      | Some l \<Rightarrow> (None, s\<lparr>ledger := Some (filter (\<lambda>r. rec_id r \<noteq> migrationId) l)\<rparr>))"

text \<open>The loop of \<^verbatim>\<open>migrateUp\<close> over the pending units: the first failure ends it.\<close>

fun apply_pending :: "int \<Rightarrow> 'db Migration list \<Rightarrow> 'db engine \<Rightarrow> error option \<times> 'db engine" where
  "apply_pending now [] s = (None, s)"
| "apply_pending now (m # ms) s =
     (let s1 = say (Applying (m_filename m)) s
      in case up m (database s1) of
           (Some e, db') \<Rightarrow>
             (Some (MigrationFailed (m_filename m)),
              say (ApplyFailed (m_filename m)) (s1\<lparr>database := db'\<rparr>))
         | (None, db') \<Rightarrow>
             (case recordMigration now m (s1\<lparr>database := db'\<rparr>) of
                (Some e, s2) \<Rightarrow>
                  (Some (MigrationFailed (m_filename m)), say (ApplyFailed (m_filename m)) s2)
              | (None, s2) \<Rightarrow> apply_pending now ms (say (ApplySucceeded (m_filename m)) s2)))"

definition migrateUp ::
  "int \<Rightarrow> (string \<times> 'db import_result) list option \<Rightarrow> 'db engine \<Rightarrow> error option \<times> 'db engine" where
  "migrateUp now dir s =
     (let s1 = loadMigrations dir (initMigrationTable s)
      in case getPendingMigrations s1 of
           Inl e \<Rightarrow> (Some e, say AppliedQueryFailed s1)
         | Inr pendingMigrations \<Rightarrow>
             if length pendingMigrations = 0 then (None, say NothingToApply s1)
             else
               (case apply_pending now pendingMigrations
                       (say (ApplyingCount (length pendingMigrations)) s1) of
                  (Some e, s2) \<Rightarrow> (Some e, s2)
                | (None, s2) \<Rightarrow> (None, say AllApplied s2)))"

text \<open>
  The loop of \<^verbatim>\<open>migrateDown\<close> over the records to roll back: a record without a loaded
  unit is passed over with a warning; a failure ends the loop.
\<close>

fun rollback ::
  "'db Migration list \<Rightarrow> MigrationRecord list \<Rightarrow> 'db engine \<Rightarrow> error option \<times> 'db engine" where
  "rollback ms [] s = (None, s)"
| "rollback ms (record # records) s =
     (case find (\<lambda>m. m_id m = rec_id record) ms of
        None \<Rightarrow> rollback ms records (say (FileNotFound (rec_filename record)) s)
      | Some migration \<Rightarrow>
          let s1 = say (RollingBack (m_filename migration)) s
          in (case down migration (database s1) of
                (Some e, db') \<Rightarrow>
                  (Some (RollbackFailed (m_filename migration)),
                   say (RollbackFailedFor (m_filename migration)) (s1\<lparr>database := db'\<rparr>))
              | (None, db') \<Rightarrow>
                  (case removeMigrationRecord (m_id migration) (s1\<lparr>database := db'\<rparr>) of
                     (Some e, s2) \<Rightarrow>
                       (Some (RollbackFailed (m_filename migration)),
                        say (RollbackFailedFor (m_filename migration)) s2)
                   | (None, s2) \<Rightarrow>
                       rollback ms records
                         (say (RollbackSucceeded (m_filename migration)) s2))))"

text \<open>\<^verbatim>\<open>appliedMigrations.findIndex(m => m.id === targetId)\<close>, \<open>None\<close> standing for \<open>-1\<close>.\<close>

definition findIndex :: "('a \<Rightarrow> bool) \<Rightarrow> 'a list \<Rightarrow> nat option" where
  "findIndex P xs =
     (let n = length (takeWhile (\<lambda>x. \<not> P x) xs) in if n < length xs then Some n else None)"

text \<open>
  The records \<^verbatim>\<open>migrateDown(targetId?)\<close> selects: an omitted target and the empty string
  both take the branch of the last applied record; a target that is found selects the
  records after it, last first; \<open>None\<close> is the early return for a target not found.
\<close>

definition select_rollback :: "string option \<Rightarrow> MigrationRecord list \<Rightarrow> MigrationRecord list option" where
  "select_rollback targetId appliedMigrations =
     (case targetId of
        None \<Rightarrow> Some [last appliedMigrations]
      | Some t \<Rightarrow>
          if t = [] then Some [last appliedMigrations]
          else (case findIndex (\<lambda>m. rec_id m = t) appliedMigrations of
                  None \<Rightarrow> None
                | Some targetIndex \<Rightarrow> Some (rev (drop (targetIndex + 1) appliedMigrations))))"

definition migrateDown ::
  "(string \<times> 'db import_result) list option \<Rightarrow> string option \<Rightarrow> 'db engine
     \<Rightarrow> error option \<times> 'db engine" where
  "migrateDown dir targetId s =
     (let s1 = loadMigrations dir (initMigrationTable s)
      in case getAppliedMigrations s1 of
           Inl e \<Rightarrow> (Some e, say AppliedQueryFailed s1)
         | Inr appliedMigrations \<Rightarrow>
             if length appliedMigrations = 0 then (None, say NothingToRollback s1)
             else
               (case select_rollback targetId appliedMigrations of
                  None \<Rightarrow> (None, say (TargetNotFound (case targetId of Some t \<Rightarrow> t | None \<Rightarrow> [])) s1)
                | Some migrationsToRollback \<Rightarrow>
                    if length migrationsToRollback = 0 then (None, say NothingToRollback s1)
                    else
                      (case rollback (migrations s1) migrationsToRollback
                              (say (RollingBackCount (length migrationsToRollback)) s1) of
                         (Some e, s2) \<Rightarrow> (Some e, s2)
                       | (None, s2) \<Rightarrow> (None, say RollbackDone s2))))"

text \<open>\<^verbatim>\<open>status()\<close>: the applied records and the pending units.\<close>

definition status ::
  "(string \<times> 'db import_result) list option \<Rightarrow> 'db engine
     \<Rightarrow> (error + MigrationRecord list \<times> 'db Migration list) \<times> 'db engine" where
  "status dir s =
     (let s1 = loadMigrations dir (initMigrationTable s)
      in case getAppliedMigrations s1 of
           Inl e \<Rightarrow> (Inl e, say AppliedQueryFailed s1)
         | Inr appliedMigrations \<Rightarrow>
             (case getPendingMigrations s1 of
                Inl e \<Rightarrow> (Inl e, say AppliedQueryFailed s1)
              | Inr pendingMigrations \<Rightarrow>
                  (Inr (appliedMigrations, pendingMigrations),
                   say (StatusReport (length appliedMigrations) (length pendingMigrations)) s1)))"

section \<open>Reference notions of the specification\<close>

text \<open>The transition table of the task state machine, as the specification lists it.\<close>

definition spec_transitions :: "(TaskStatus \<times> TaskStatus) list" where
  "spec_transitions =
     [(CREATED, PLANNED), (CREATED, IN_PROGRESS), (CREATED, CANCELLED),
      (PLANNED, IN_PROGRESS), (PLANNED, BLOCKED), (PLANNED, CANCELLED),
      (IN_PROGRESS, BLOCKED), (IN_PROGRESS, REVIEW), (IN_PROGRESS, COMPLETED),
      (IN_PROGRESS, CANCELLED),
      (BLOCKED, IN_PROGRESS), (BLOCKED, CANCELLED),
      (REVIEW, IN_PROGRESS), (REVIEW, COMPLETED), (REVIEW, CANCELLED),
      (COMPLETED, IN_PROGRESS), (COMPLETED, CANCELLED),
      (CANCELLED, CREATED), (CANCELLED, PLANNED)]"

definition spec_legal :: "TaskStatus \<Rightarrow> TaskStatus \<Rightarrow> bool" where
  "spec_legal c s = (c = s \<or> (c, s) \<in> set spec_transitions)"

text \<open>The rows of the ledger table, a table not yet created having none.\<close>

definition ledger_rows :: "'db engine \<Rightarrow> MigrationRecord list" where
  "ledger_rows s = (case ledger s of None \<Rightarrow> [] | Some l \<Rightarrow> l)"

text \<open>The ledger exists and holds the id of every loaded unit.\<close>

definition settled :: "'db engine \<Rightarrow> bool" where
  "settled s = (\<exists>l. ledger s = Some l \<and> m_id ` set (migrations s) \<subseteq> rec_id ` set l)"

section \<open>Well-typed entities\<close>






section \<open>Sample data\<close>

text \<open>
  A database that is a single counter, a directory with one unit that increments it, and
  two engine states: one with that unit applied, one whose ledger also names a unit
  whose file is gone.
\<close>

definition sample_up :: "nat \<Rightarrow> error option \<times> nat" where
  "sample_up d = (None, d + 1)"

definition sample_down :: "nat \<Rightarrow> error option \<times> nat" where
  "sample_down d = (None, d - 1)"

definition sample_dir :: "(string \<times> nat import_result) list option" where
  "sample_dir = Some [(''001-init.ts'', Module (Some sample_up) (Some sample_down))]"

definition sample_fresh :: "nat engine" where
  "sample_fresh = \<lparr>migrations = [], ledger = None, database = 0, logs = []\<rparr>"

definition sample_applied :: "nat engine" where
  "sample_applied =
     \<lparr>migrations = [],
      ledger = Some [\<lparr>rec_id = ''001'', rec_filename = ''001-init.ts'', applied_at = 0\<rparr>],
      database = 1, logs = []\<rparr>"

definition sample_orphan :: "nat engine" where
  "sample_orphan =
     \<lparr>migrations = [],
      ledger = Some [\<lparr>rec_id = ''001'', rec_filename = ''001-init.ts'', applied_at = 0\<rparr>,
                     \<lparr>rec_id = ''002'', rec_filename = ''002-gone.ts'', applied_at = 0\<rparr>],
      database = 1, logs = []\<rparr>"




definition sample_notes :: table where
  "sample_notes =
     [(1, [(''id'', Num 1), (''rank'', Num 10)]), (2, [(''id'', Num 2), (''rank'', Num 20)])]"



section \<open>Verified properties\<close>

subsection \<open>Objects\<close>

lemma get_update: "get (AList.update k v obj) k' = (if k' = k then v else get obj k')"
  by (simp add: get_def update_conv')

lemma get_absent: "k \<notin> fst ` set obj \<Longrightarrow> get obj k = Undefined"
  by (simp add: get_def map_of_eq_None_iff [THEN iffD2])

lemma get_Cons: "get ((k0, v0) # xs) k = (if k = k0 then v0 else get xs k)"
  by (simp add: get_def)

lemma get_spread:
  "distinct (map fst b) \<Longrightarrow>
     get (spread a b) k = (if k \<in> fst ` set b then get b k else get a k)"
proof (induction b arbitrary: a)
  case Nil
  show ?case by (simp add: spread_def)
next
  case (Cons x xs)
  obtain k0 v0 where x: "x = (k0, v0)" by (cases x)
  have step: "spread a ((k0, v0) # xs) = spread (AList.update k0 v0 a) xs"
    by (simp add: spread_def)
  from Cons.prems x have d: "distinct (map fst xs)" and nx: "k0 \<notin> fst ` set xs" by auto
  from nx have gx: "get xs k0 = Undefined" by (rule get_absent)
  show ?case
    unfolding x step Cons.IH [OF d] get_Cons get_update
    using nx gx by auto
qed

lemma keys_update: "fst ` set (AList.update k v obj) = insert k (fst ` set obj)"
  by (induction obj) auto

subsection \<open>Filter compiler\<close>

lemma join_concat: "join sep (x # xs) = x @ concat (map (\<lambda>y. sep @ y) xs)"
  by (induction xs arbitrary: x) simp_all

text \<open>
  C6. For every filter object the base compiler writes \<^verbatim>\<open>WHERE\<close> followed by one
  \<^verbatim>\<open>key = ?\<close> predicate for each entry whose key is not one of the four control keys, in
  the filter's order, every predicate after the first preceded by \<^verbatim>\<open>AND\<close>, and binds
  the values of exactly those entries; a filter with no such entry compiles to the empty
  clause. The order/limit compiler writes \<^verbatim>\<open>ORDER BY\<close> exactly when \<open>orderBy\<close> is truthy,
  with \<^verbatim>\<open>ASC\<close> for a missing direction, and \<^verbatim>\<open>LIMIT\<close> exactly when \<open>limit\<close> is not
  undefined, \<^verbatim>\<open>OFFSET\<close> appearing only inside the \<^verbatim>\<open>LIMIT\<close> part; its output is the same
  for any two filters that agree on the four control keys, whatever their predicates.
\<close>

theorem filter_compiler:
  "fst (buildWhereClause (Some flt)) =
     (case filter (\<lambda>kv. fst kv \<notin> {''limit'', ''offset'', ''orderBy'', ''orderDirection''}) flt of
        [] \<Rightarrow> []
      | c # cs \<Rightarrow> ''WHERE '' @ fst c @ '' = ?''
                   @ concat (map (\<lambda>kv. '' AND '' @ fst kv @ '' = ?'') cs))
   \<and> snd (buildWhereClause (Some flt)) =
       map snd (filter (\<lambda>kv. fst kv \<notin> {''limit'', ''offset'', ''orderBy'', ''orderDirection''})
                  flt)
   \<and> buildOrderAndLimit rt (Some flt) =
       (if truthy (get flt ''orderBy'')
        then '' ORDER BY '' @ to_text rt (get flt ''orderBy'') @ '' ''
             @ (if truthy (get flt ''orderDirection'')
                then to_text rt (get flt ''orderDirection'') else ''ASC'')
        else [])
       @ (if get flt ''limit'' = Undefined then []
          else '' LIMIT '' @ to_text rt (get flt ''limit'')
               @ (if get flt ''offset'' = Undefined then []
                  else '' OFFSET '' @ to_text rt (get flt ''offset'')))
   \<and> ((\<forall>k \<in> {''limit'', ''offset'', ''orderBy'', ''orderDirection''}. get flt k = get flt' k) \<longrightarrow>
        buildOrderAndLimit rt (Some flt) = buildOrderAndLimit rt (Some flt'))"
proof -
  define conds
    where "conds = filter (\<lambda>kv. fst kv \<notin> {''limit'', ''offset'', ''orderBy'', ''orderDirection''}) flt"
  have c: "rest_without reserved_keys flt = conds"
    by (simp add: conds_def rest_without_def reserved_keys_def)
  have clause: "fst (buildWhereClause (Some flt)) =
     (case conds of
        [] \<Rightarrow> []
      | c # cs \<Rightarrow> ''WHERE '' @ fst c @ '' = ?''
                   @ concat (map (\<lambda>kv. '' AND '' @ fst kv @ '' = ?'') cs))"
    by (cases conds) (simp_all add: buildWhereClause_def c Let_def join_concat comp_def)
  have params: "snd (buildWhereClause (Some flt)) = map snd conds"
    by (simp add: buildWhereClause_def c Let_def)
  have tail: "buildOrderAndLimit rt (Some flt) =
       (if truthy (get flt ''orderBy'')
        then '' ORDER BY '' @ to_text rt (get flt ''orderBy'') @ '' ''
             @ (if truthy (get flt ''orderDirection'')
                then to_text rt (get flt ''orderDirection'') else ''ASC'')
        else [])
       @ (if get flt ''limit'' = Undefined then []
          else '' LIMIT '' @ to_text rt (get flt ''limit'')
               @ (if get flt ''offset'' = Undefined then []
                  else '' OFFSET '' @ to_text rt (get flt ''offset'')))"
    by (simp add: buildOrderAndLimit_def Let_def or_default_def)
  have same: "(\<forall>k \<in> {''limit'', ''offset'', ''orderBy'', ''orderDirection''}. get flt k = get flt' k) \<longrightarrow>
        buildOrderAndLimit rt (Some flt) = buildOrderAndLimit rt (Some flt')"
    by (simp add: buildOrderAndLimit_def Let_def)
  from clause params tail same show ?thesis unfolding conds_def by (intro conjI)
qed

theorem filter_compiler_witness:
  "buildWhereClause (Some [(''status'', Str ''DONE''), (''limit'', Num 5),
       (''project'', Str ''p1''), (''orderBy'', Str ''dueDate''), (''assignee'', Str ''ann''),
       (''orderDirection'', Str ''DESC'')])
     = (''WHERE status = ? AND project = ? AND assignee = ?'',
        [Str ''DONE'', Str ''p1'', Str ''ann''])
   \<and> buildOrderAndLimit (\<lambda>v. []) (Some [(''status'', Str ''DONE''), (''limit'', Num 5),
       (''project'', Str ''p1''), (''orderBy'', Str ''dueDate''), (''assignee'', Str ''ann''),
       (''orderDirection'', Str ''DESC'')])
     = '' ORDER BY dueDate DESC LIMIT 5''
   \<and> buildWhereClause (Some [(''status'', Str ''DONE''), (''limit'', Num 5),
       (''orderBy'', Str ''dueDate''), (''orderDirection'', Str ''DESC'')])
     = (''WHERE status = ?'', [Str ''DONE''])
   \<and> buildOrderAndLimit (\<lambda>v. []) (Some [(''status'', Str ''DONE''), (''limit'', Num 5),
       (''orderBy'', Str ''dueDate''), (''orderDirection'', Str ''DESC'')])
     = '' ORDER BY dueDate DESC LIMIT 5''
   \<and> buildOrderAndLimit (\<lambda>v. []) (Some [(''orderBy'', Str ''dueDate''), (''offset'', Num 2)])
     = '' ORDER BY dueDate ASC''"
proof -
  let ?f = "[(''status'', Str ''DONE''), (''limit'', Num 5),
       (''project'', Str ''p1''), (''orderBy'', Str ''dueDate''), (''assignee'', Str ''ann''),
       (''orderDirection'', Str ''DESC'')]"
  let ?g = "[(''status'', Str ''DONE''), (''limit'', Num 5), (''orderBy'', Str ''dueDate''),
             (''orderDirection'', Str ''DESC'')]"
  let ?h = "[(''orderBy'', Str ''dueDate''), (''offset'', Num 2)]"
  have same: "\<forall>k \<in> {''limit'', ''offset'', ''orderBy'', ''orderDirection''}. get ?g k = get ?f k"
    by (simp add: get_def)
  have pair: "\<And>p a b. fst p = a \<Longrightarrow> snd p = b \<Longrightarrow> p = (a, b)" by auto
  from filter_compiler [of ?f "\<lambda>v. []" ?f] filter_compiler [of ?g "\<lambda>v. []" ?f]
    filter_compiler [of ?h "\<lambda>v. []" ?h] same
  show ?thesis
    by (simp add: get_def int_text_def digits.simps prod_eq_iff)
qed

subsection \<open>Lookup of one entity\<close>

lemmas query_eval = findOne_def findAll_def db_get_def db_all_def apply_order_def apply_limit_def
  as_integer_def where_conds_def order_part_def limit_part_def offset_part_def rest_without_def
  reserved_keys_def row_matches_def sort_by_def get_def or_default_def base_repo_def
  sample_notes_def


text \<open>
  C7 at a failing input. The table holds a row of rank 10 and then a row of rank 20, and
  the filter orders by rank, descending. \<open>findOne\<close> returns the row of rank 10, the
  first in storage order; \<open>findAll\<close> on the same filter with limit 1 returns the row
  of rank 20. The statement \<open>findOne\<close> sends has no \<^verbatim>\<open>ORDER BY\<close>.
\<close>

theorem findOne_ignores_order:
  "findOne (base_repo ''notes'' ''id'') 0
      [(''orderBy'', Str ''rank''), (''orderDirection'', Str ''DESC'')] sample_notes
     = Inr (Some [(''id'', Num 1), (''rank'', Num 10)])
   \<and> findAll (base_repo ''notes'' ''id'') rt 0
      (Some [(''orderBy'', Str ''rank''), (''orderDirection'', Str ''DESC''), (''limit'', Num 1)])
      sample_notes
     = Inr [[(''id'', Num 2), (''rank'', Num 20)]]
   \<and> findOne_sql (base_repo ''notes'' ''id'')
      (Some [(''orderBy'', Str ''rank''), (''orderDirection'', Str ''DESC'')])
     = ''SELECT * FROM notes  LIMIT 1''
   \<and> findAll_sql (base_repo ''notes'' ''id'') rt
      (Some [(''orderBy'', Str ''rank''), (''orderDirection'', Str ''DESC''), (''limit'', Num 1)])
     = ''SELECT * FROM notes   ORDER BY rank DESC LIMIT 1''"
  by (simp add: query_eval findOne_sql_def findAll_sql_def buildWhereClause_def
      buildOrderAndLimit_def int_text_def digits.simps Let_def)

subsection \<open>Creation\<close>

lemma next_rowid_fresh: "next_rowid tbl \<notin> fst ` set tbl"
proof
  assume "next_rowid tbl \<in> fst ` set tbl"
  then have ne: "tbl \<noteq> []" and "next_rowid tbl \<in> set (map fst tbl)" by auto
  then have "next_rowid tbl \<le> Max (set (map fst tbl))" by (intro Max_ge) simp_all
  with ne show False by (simp add: next_rowid_def)
qed

lemma get_zip_map: "get (zip cols (map f cols)) k = (if k \<in> set cols then f k else Undefined)"
  by (simp add: get_def map_of_zip_map)

lemma keys_spread: "fst ` set (spread a b) = fst ` set a \<union> fst ` set b"
proof (induction b arbitrary: a)
  case Nil
  show ?case by (simp add: spread_def)
next
  case (Cons x xs)
  have step: "spread a (x # xs) = spread (AList.update (fst x) (snd x) a) xs"
    by (simp add: spread_def)
  show ?case unfolding step Cons.IH keys_update by auto
qed

lemma iso_or_Inr:
  "iso_or d alt = Inr v \<Longrightarrow> v = (case d of DateV t \<Rightarrow> IsoText t | _ \<Rightarrow> alt)"
  by (cases d) (auto simp add: iso_or_def split: if_splits)

lemma toISOString_Inr: "toISOString d = Inr v \<Longrightarrow> \<exists>t. d = DateV t \<and> v = IsoText t"
  by (cases d) simp_all

lemma stringify_truthy: "truthy v \<Longrightarrow> JSON_stringify v = JsonText (to_json v)"
  by (cases v) (simp_all add: JSON_stringify_def)

text \<open>The row \<open>create\<close> stores: the converted row without \<open>id\<close>, as it is bound.\<close>

lemma create_Inr:
  assumes "create R now entity tbl = (Inr created, tbl')"
  obtains row stored
  where "entityToRow R now entity = Inr row"
    and "tbl' = tbl @ [(next_rowid tbl, stored)]"
    and "created = AList.update ''id'' (Num (of_int (next_rowid tbl))) entity"
    and "fst ` set stored = fst ` set row - {''id''}"
    and "\<forall>k. k \<noteq> ''id'' \<longrightarrow> get stored k =
           (if k \<in> fst ` set row then bind_param (get row k) else Undefined)"
proof -
  from assms obtain row where row: "entityToRow R now entity = Inr row"
    by (cases "entityToRow R now entity") (simp_all add: create_def)
  let ?cols = "filter (\<lambda>key. key \<noteq> ''id'') (map fst row)"
  let ?stored = "zip ?cols (map bind_param (map (get row) ?cols))"
  have res: "create R now entity tbl =
      (Inr (AList.update ''id'' (Num (of_int (next_rowid tbl))) entity),
       tbl @ [(next_rowid tbl, ?stored)])"
    using row by (simp add: create_def db_insert_def Let_def)
  have g: "\<And>k. get ?stored k = (if k \<in> set ?cols then bind_param (get row k) else Undefined)"
    using get_zip_map [of ?cols "\<lambda>k. bind_param (get row k)"] by (simp add: comp_def)
  have keys: "fst ` set ?stored = fst ` set row - {''id''}"
  proof -
    have "map fst ?stored = ?cols" by simp
    then have "fst ` set ?stored = set ?cols" by (metis set_map)
    then show ?thesis by auto
  qed
  have vals: "\<forall>k. k \<noteq> ''id'' \<longrightarrow> get ?stored k =
             (if k \<in> fst ` set row then bind_param (get row k) else Undefined)"
    unfolding g by auto
  from res assms have t: "tbl' = tbl @ [(next_rowid tbl, ?stored)]"
    and c: "created = AList.update ''id'' (Num (of_int (next_rowid tbl))) entity"
    by simp_all
  from row t c keys vals show thesis by (rule that)
qed

lemma task_row:
  assumes "task_entityToRow now entity = Inr row"
  shows "fst ` set row = fst ` set entity \<union> {''metadata'', ''dueDate'', ''createdAt'', ''updatedAt''}"
    and "get row ''metadata'' =
           (if truthy (get entity ''metadata'') then JsonText (to_json (get entity ''metadata''))
            else Null)"
    and "get row ''dueDate'' = (case get entity ''dueDate'' of DateV t \<Rightarrow> IsoText t | _ \<Rightarrow> Null)"
    and "get row ''createdAt'' =
           (case get entity ''createdAt'' of DateV t \<Rightarrow> IsoText t | _ \<Rightarrow> IsoText now)"
    and "get row ''updatedAt'' = IsoText now"
    and "\<And>k. k \<notin> {''metadata'', ''dueDate'', ''createdAt'', ''updatedAt''} \<Longrightarrow>
           get row k = get entity k"
proof -
  from assms obtain dueDate createdAt
    where d: "iso_or (get entity ''dueDate'') Null = Inr dueDate"
      and c: "iso_or (get entity ''createdAt'') (IsoText now) = Inr createdAt"
      and row: "row = spread entity
         [(''metadata'', if truthy (get entity ''metadata'')
                          then JSON_stringify (get entity ''metadata'') else Null),
          (''dueDate'', dueDate), (''createdAt'', createdAt), (''updatedAt'', IsoText now)]"
    by (auto simp add: task_entityToRow_def then_do_def split: sum.splits)
  note d' = iso_or_Inr [OF d] and c' = iso_or_Inr [OF c]
  show "fst ` set row = fst ` set entity \<union> {''metadata'', ''dueDate'', ''createdAt'', ''updatedAt''}"
    unfolding row keys_spread by simp
  show "get row ''metadata'' =
           (if truthy (get entity ''metadata'') then JsonText (to_json (get entity ''metadata''))
            else Null)"
    unfolding row by (simp add: get_spread get_Cons stringify_truthy)
  show "get row ''dueDate'' = (case get entity ''dueDate'' of DateV t \<Rightarrow> IsoText t | _ \<Rightarrow> Null)"
    unfolding row by (simp add: get_spread get_Cons d')
  show "get row ''createdAt'' =
           (case get entity ''createdAt'' of DateV t \<Rightarrow> IsoText t | _ \<Rightarrow> IsoText now)"
    unfolding row by (simp add: get_spread get_Cons c')
  show "get row ''updatedAt'' = IsoText now"
    unfolding row by (simp add: get_spread get_Cons)
  show "\<And>k. k \<notin> {''metadata'', ''dueDate'', ''createdAt'', ''updatedAt''} \<Longrightarrow>
           get row k = get entity k"
    unfolding row by (simp add: get_spread)
qed


lemma memory_row:
  assumes "memory_entityToRow now entity = Inr row"
  shows "fst ` set row = fst ` set entity \<union>
           {''timestamp'', ''lastAccessed'', ''tags'', ''metadata'', ''relationships'',
            ''createdAt'', ''updatedAt''}"
    and "\<exists>t. get entity ''timestamp'' = DateV t \<and> get row ''timestamp'' = IsoText t"
    and "get row ''lastAccessed'' =
           (case get entity ''lastAccessed'' of DateV t \<Rightarrow> IsoText t | _ \<Rightarrow> Null)"
    and "get row ''tags'' = JSON_stringify (get entity ''tags'')"
    and "get row ''metadata'' = JSON_stringify (get entity ''metadata'')"
    and "get row ''relationships'' = JSON_stringify (get entity ''relationships'')"
    and "get row ''createdAt'' =
           (case get entity ''createdAt'' of DateV t \<Rightarrow> IsoText t | _ \<Rightarrow> IsoText now)"
    and "get row ''updatedAt'' = IsoText now"
    and "\<And>k. k \<notin> {''timestamp'', ''lastAccessed'', ''tags'', ''metadata'', ''relationships'',
                 ''createdAt'', ''updatedAt''} \<Longrightarrow> get row k = get entity k"
proof -
  from assms obtain timestamp lastAccessed createdAt
    where t: "toISOString (get entity ''timestamp'') = Inr timestamp"
      and l: "iso_or (get entity ''lastAccessed'') Null = Inr lastAccessed"
      and c: "iso_or (get entity ''createdAt'') (IsoText now) = Inr createdAt"
      and row: "row = spread entity
         [(''timestamp'', timestamp), (''lastAccessed'', lastAccessed),
          (''tags'', JSON_stringify (get entity ''tags'')),
          (''metadata'', JSON_stringify (get entity ''metadata'')),
          (''relationships'', JSON_stringify (get entity ''relationships'')),
          (''createdAt'', createdAt), (''updatedAt'', IsoText now)]"
    by (auto simp add: memory_entityToRow_def then_do_def split: sum.splits)
  note l' = iso_or_Inr [OF l] and c' = iso_or_Inr [OF c]
  show "fst ` set row = fst ` set entity \<union>
           {''timestamp'', ''lastAccessed'', ''tags'', ''metadata'', ''relationships'',
            ''createdAt'', ''updatedAt''}"
    unfolding row keys_spread by simp
  show "\<exists>t. get entity ''timestamp'' = DateV t \<and> get row ''timestamp'' = IsoText t"
    using toISOString_Inr [OF t] unfolding row by (auto simp add: get_spread get_Cons)
  show "get row ''lastAccessed'' =
           (case get entity ''lastAccessed'' of DateV t \<Rightarrow> IsoText t | _ \<Rightarrow> Null)"
    unfolding row by (simp add: get_spread get_Cons l')
  show "get row ''tags'' = JSON_stringify (get entity ''tags'')"
    unfolding row by (simp add: get_spread get_Cons)
  show "get row ''metadata'' = JSON_stringify (get entity ''metadata'')"
    unfolding row by (simp add: get_spread get_Cons)
  show "get row ''relationships'' = JSON_stringify (get entity ''relationships'')"
    unfolding row by (simp add: get_spread get_Cons)
  show "get row ''createdAt'' =
           (case get entity ''createdAt'' of DateV t \<Rightarrow> IsoText t | _ \<Rightarrow> IsoText now)"
    unfolding row by (simp add: get_spread get_Cons c')
  show "get row ''updatedAt'' = IsoText now"
    unfolding row by (simp add: get_spread get_Cons)
  show "\<And>k. k \<notin> {''timestamp'', ''lastAccessed'', ''tags'', ''metadata'', ''relationships'',
                 ''createdAt'', ''updatedAt''} \<Longrightarrow> get row k = get entity k"
    unfolding row by (simp add: get_spread)
qed

lemma timeEntry_row:
  assumes "timeEntry_entityToRow now entity = Inr row"
  shows "fst ` set row = fst ` set entity \<union>
           {''startTime'', ''endTime'', ''tags'', ''metadata'', ''createdAt'', ''updatedAt''}"
    and "\<exists>t. get entity ''startTime'' = DateV t \<and> get row ''startTime'' = IsoText t"
    and "get row ''endTime'' =
           (case get entity ''endTime'' of DateV t \<Rightarrow> IsoText t | _ \<Rightarrow> Null)"
    and "get row ''tags'' =
           (if truthy (get entity ''tags'') then JsonText (to_json (get entity ''tags''))
            else JsonText (JArr []))"
    and "get row ''metadata'' =
           (if truthy (get entity ''metadata'') then JsonText (to_json (get entity ''metadata''))
            else JsonText (JObj []))"
    and "get row ''createdAt'' =
           (case get entity ''createdAt'' of DateV t \<Rightarrow> IsoText t | _ \<Rightarrow> IsoText now)"
    and "get row ''updatedAt'' = IsoText now"
    and "\<And>k. k \<notin> {''startTime'', ''endTime'', ''tags'', ''metadata'', ''createdAt'',
                 ''updatedAt''} \<Longrightarrow> get row k = get entity k"
proof -
  from assms obtain startTime endTime createdAt
    where t: "toISOString (get entity ''startTime'') = Inr startTime"
      and l: "iso_or (get entity ''endTime'') Null = Inr endTime"
      and c: "iso_or (get entity ''createdAt'') (IsoText now) = Inr createdAt"
      and row: "row = spread entity
         [(''startTime'', startTime), (''endTime'', endTime),
          (''tags'', if truthy (get entity ''tags'')
                      then JSON_stringify (get entity ''tags'') else JsonText (JArr [])),
          (''metadata'', if truthy (get entity ''metadata'')
                          then JSON_stringify (get entity ''metadata'')
                          else JsonText (JObj [])),
          (''createdAt'', createdAt), (''updatedAt'', IsoText now)]"
    by (auto simp add: timeEntry_entityToRow_def then_do_def split: sum.splits)
  note l' = iso_or_Inr [OF l] and c' = iso_or_Inr [OF c]
  show "fst ` set row = fst ` set entity \<union>
           {''startTime'', ''endTime'', ''tags'', ''metadata'', ''createdAt'', ''updatedAt''}"
    unfolding row keys_spread by simp
  show "\<exists>t. get entity ''startTime'' = DateV t \<and> get row ''startTime'' = IsoText t"
    using toISOString_Inr [OF t] unfolding row by (auto simp add: get_spread get_Cons)
  show "get row ''endTime'' =
           (case get entity ''endTime'' of DateV t \<Rightarrow> IsoText t | _ \<Rightarrow> Null)"
    unfolding row by (simp add: get_spread get_Cons l')
  show "get row ''tags'' =
           (if truthy (get entity ''tags'') then JsonText (to_json (get entity ''tags''))
            else JsonText (JArr []))"
    unfolding row by (simp add: get_spread get_Cons stringify_truthy)
  show "get row ''metadata'' =
           (if truthy (get entity ''metadata'') then JsonText (to_json (get entity ''metadata''))
            else JsonText (JObj []))"
    unfolding row by (simp add: get_spread get_Cons stringify_truthy)
  show "get row ''createdAt'' =
           (case get entity ''createdAt'' of DateV t \<Rightarrow> IsoText t | _ \<Rightarrow> IsoText now)"
    unfolding row by (simp add: get_spread get_Cons c')
  show "get row ''updatedAt'' = IsoText now"
    unfolding row by (simp add: get_spread get_Cons)
  show "\<And>k. k \<notin> {''startTime'', ''endTime'', ''tags'', ''metadata'', ''createdAt'',
                 ''updatedAt''} \<Longrightarrow> get row k = get entity k"
    unfolding row by (simp add: get_spread)
qed

lemma notification_row:
  assumes "notification_entityToRow now entity = Inr row"
  shows "fst ` set row = fst ` set entity \<union>
           {''timestamp'', ''expiresAt'', ''actions'', ''metadata'', ''createdAt'', ''updatedAt''}"
    and "\<exists>t. get entity ''timestamp'' = DateV t \<and> get row ''timestamp'' = IsoText t"
    and "get row ''expiresAt'' =
           (case get entity ''expiresAt'' of DateV t \<Rightarrow> IsoText t | _ \<Rightarrow> Null)"
    and "get row ''actions'' =
           (if truthy (get entity ''actions'') then JsonText (to_json (get entity ''actions''))
            else Null)"
    and "get row ''metadata'' =
           (if truthy (get entity ''metadata'') then JsonText (to_json (get entity ''metadata''))
            else JsonText (JObj []))"
    and "get row ''createdAt'' =
           (case get entity ''createdAt'' of DateV t \<Rightarrow> IsoText t | _ \<Rightarrow> IsoText now)"
    and "get row ''updatedAt'' = IsoText now"
    and "\<And>k. k \<notin> {''timestamp'', ''expiresAt'', ''actions'', ''metadata'', ''createdAt'',
                 ''updatedAt''} \<Longrightarrow> get row k = get entity k"
proof -
  from assms obtain timestamp expiresAt createdAt
    where t: "toISOString (get entity ''timestamp'') = Inr timestamp"
      and l: "iso_or (get entity ''expiresAt'') Null = Inr expiresAt"
      and c: "iso_or (get entity ''createdAt'') (IsoText now) = Inr createdAt"
      and row: "row = spread entity
         [(''timestamp'', timestamp), (''expiresAt'', expiresAt),
          (''actions'', if truthy (get entity ''actions'')
                         then JSON_stringify (get entity ''actions'') else Null),
          (''metadata'', if truthy (get entity ''metadata'')
                          then JSON_stringify (get entity ''metadata'')
                          else JsonText (JObj [])),
          (''createdAt'', createdAt), (''updatedAt'', IsoText now)]"
    by (auto simp add: notification_entityToRow_def then_do_def split: sum.splits)
  note l' = iso_or_Inr [OF l] and c' = iso_or_Inr [OF c]
  show "fst ` set row = fst ` set entity \<union>
           {''timestamp'', ''expiresAt'', ''actions'', ''metadata'', ''createdAt'', ''updatedAt''}"
    unfolding row keys_spread by simp
  show "\<exists>t. get entity ''timestamp'' = DateV t \<and> get row ''timestamp'' = IsoText t"
    using toISOString_Inr [OF t] unfolding row by (auto simp add: get_spread get_Cons)
  show "get row ''expiresAt'' =
           (case get entity ''expiresAt'' of DateV t \<Rightarrow> IsoText t | _ \<Rightarrow> Null)"
    unfolding row by (simp add: get_spread get_Cons l')
  show "get row ''actions'' =
           (if truthy (get entity ''actions'') then JsonText (to_json (get entity ''actions''))
            else Null)"
    unfolding row by (simp add: get_spread get_Cons stringify_truthy)
  show "get row ''metadata'' =
           (if truthy (get entity ''metadata'') then JsonText (to_json (get entity ''metadata''))
            else JsonText (JObj []))"
    unfolding row by (simp add: get_spread get_Cons stringify_truthy)
  show "get row ''createdAt'' =
           (case get entity ''createdAt'' of DateV t \<Rightarrow> IsoText t | _ \<Rightarrow> IsoText now)"
    unfolding row by (simp add: get_spread get_Cons c')
  show "get row ''updatedAt'' = IsoText now"
    unfolding row by (simp add: get_spread get_Cons)
  show "\<And>k. k \<notin> {''timestamp'', ''expiresAt'', ''actions'', ''metadata'', ''createdAt'',
                 ''updatedAt''} \<Longrightarrow> get row k = get entity k"
    unfolding row by (simp add: get_spread)
qed


lemma bound_row:
  assumes "fst ` set stored = fst ` set row - {''id''}"
    and "\<forall>k. k \<noteq> ''id'' \<longrightarrow> get stored k =
             (if k \<in> fst ` set row then bind_param (get row k) else Undefined)"
    and "fst ` set row = fst ` set entity \<union> C"
    and "\<And>k. k \<notin> C \<Longrightarrow> get row k = get entity k"
    and "''id'' \<notin> C"
  shows "fst ` set stored - {''id''} = (fst ` set entity \<union> C) - {''id''}"
    and "\<And>k. k \<in> C \<Longrightarrow> get stored k = bind_param (get row k)"
    and "\<forall>k. k \<notin> insert ''id'' C \<longrightarrow>
           get stored k =
             (if k \<notin> fst ` set entity then Undefined
              else if get entity k = Undefined then Null else get entity k)"
proof -
  show "fst ` set stored - {''id''} = (fst ` set entity \<union> C) - {''id''}"
    using assms(1,3) by auto
  show "get stored k = bind_param (get row k)" if "k \<in> C" for k
  proof -
    from that assms(5) have "k \<noteq> ''id''" by auto
    with that assms(2,3) show ?thesis by simp
  qed
  show "\<forall>k. k \<notin> insert ''id'' C \<longrightarrow>
           get stored k =
             (if k \<notin> fst ` set entity then Undefined
              else if get entity k = Undefined then Null else get entity k)"
    using assms(2,3,4) by (auto simp add: bind_param_def)
qed

lemma bind_stringify:
  "bind_param (JSON_stringify v) = (if v = Undefined then Null else JsonText (to_json v))"
  by (simp add: bind_param_def JSON_stringify_def)

lemma bind_if: "bind_param (if c then a else b) = (if c then bind_param a else bind_param b)"
  by simp

lemma bind_iso:
  "bind_param (IsoText t) = IsoText t" "bind_param (JsonText j) = JsonText j"
  "bind_param Null = Null"
  "bind_param (case d of DateV t \<Rightarrow> IsoText t | _ \<Rightarrow> Null)
     = (case d of DateV t \<Rightarrow> IsoText t | _ \<Rightarrow> Null)"
  "bind_param (case d of DateV t \<Rightarrow> IsoText t | _ \<Rightarrow> IsoText now)
     = (case d of DateV t \<Rightarrow> IsoText t | _ \<Rightarrow> IsoText now)"
  by (simp_all add: bind_param_def split: jsval.splits)

lemma task_stored:
  assumes keys: "fst ` set stored = fst ` set row - {''id''}"
    and vals: "\<forall>k. k \<noteq> ''id'' \<longrightarrow> get stored k =
             (if k \<in> fst ` set row then bind_param (get row k) else Undefined)"
    and conv: "task_entityToRow now entity = Inr row"
  shows "fst ` set stored - {''id''} =
        (fst ` set entity \<union> {''metadata'', ''dueDate'', ''createdAt'',
           ''updatedAt''}) - {''id''}
    \<and> get stored ''metadata'' =
        (if truthy (get entity ''metadata'') then JsonText (to_json (get entity ''metadata''))
         else Null)
    \<and> get stored ''dueDate'' =
        (case get entity ''dueDate'' of DateV t \<Rightarrow> IsoText t | _ \<Rightarrow> Null)
    \<and> (\<forall>k. k \<notin> {''id'', ''metadata'', ''dueDate'', ''createdAt'',
                       ''updatedAt''} \<longrightarrow>
         get stored k =
           (if k \<notin> fst ` set entity then Undefined
            else if get entity k = Undefined then Null else get entity k))"
    and "get stored ''updatedAt'' = IsoText now"
    and "get stored ''createdAt'' =
       (case get entity ''createdAt'' of DateV t \<Rightarrow> IsoText t | _ \<Rightarrow> IsoText now)"
proof -
  note r = task_row [OF conv]
  have idC: "''id'' \<notin> {''metadata'', ''dueDate'', ''createdAt'', ''updatedAt''}"
    by simp
  note b = bound_row [OF keys vals r(1) r(6) idC]
  have k0: "get stored ''metadata'' =
         (if truthy (get entity ''metadata'') then JsonText (to_json (get entity ''metadata''))
          else Null)"
    using b(2) [of "''metadata''"] r(2) by (auto simp add: bind_if bind_iso bind_stringify)
  have k1: "get stored ''dueDate'' =
         (case get entity ''dueDate'' of DateV t \<Rightarrow> IsoText t | _ \<Rightarrow> Null)"
    using b(2) [of "''dueDate''"] r(3) by (auto simp add: bind_if bind_iso bind_stringify)
  have ko: "(\<forall>k. k \<notin> {''id'', ''metadata'', ''dueDate'', ''createdAt'',
                        ''updatedAt''} \<longrightarrow>
          get stored k =
            (if k \<notin> fst ` set entity then Undefined
             else if get entity k = Undefined then Null else get entity k))"
    using b(3) by simp
  from b(1) k0 k1 ko
  show "fst ` set stored - {''id''} =
        (fst ` set entity \<union> {''metadata'', ''dueDate'', ''createdAt'',
           ''updatedAt''}) - {''id''}
    \<and> get stored ''metadata'' =
        (if truthy (get entity ''metadata'') then JsonText (to_json (get entity ''metadata''))
         else Null)
    \<and> get stored ''dueDate'' =
        (case get entity ''dueDate'' of DateV t \<Rightarrow> IsoText t | _ \<Rightarrow> Null)
    \<and> (\<forall>k. k \<notin> {''id'', ''metadata'', ''dueDate'', ''createdAt'',
                       ''updatedAt''} \<longrightarrow>
         get stored k =
           (if k \<notin> fst ` set entity then Undefined
            else if get entity k = Undefined then Null else get entity k))"
    by (intro conjI)
  show "get stored ''updatedAt'' = IsoText now"
    using b(2) [of "''updatedAt''"] r(5) by (simp add: bind_iso)
  show "get stored ''createdAt'' =
       (case get entity ''createdAt'' of DateV t \<Rightarrow> IsoText t | _ \<Rightarrow> IsoText now)"
    using b(2) [of "''createdAt''"] r(4) by (simp add: bind_iso)
qed

lemma memory_stored:
  assumes keys: "fst ` set stored = fst ` set row - {''id''}"
    and vals: "\<forall>k. k \<noteq> ''id'' \<longrightarrow> get stored k =
             (if k \<in> fst ` set row then bind_param (get row k) else Undefined)"
    and conv: "memory_entityToRow now entity = Inr row"
  shows "fst ` set stored - {''id''} =
        (fst ` set entity \<union> {''timestamp'', ''lastAccessed'', ''tags'', ''metadata'',
           ''relationships'', ''createdAt'', ''updatedAt''}) - {''id''}
    \<and> (\<exists>t. get entity ''timestamp'' = DateV t \<and> get stored ''timestamp'' = IsoText t)
    \<and> get stored ''lastAccessed'' =
        (case get entity ''lastAccessed'' of DateV t \<Rightarrow> IsoText t | _ \<Rightarrow> Null)
    \<and> get stored ''tags'' =
        (if get entity ''tags'' = Undefined then Null
         else JsonText (to_json (get entity ''tags'')))
    \<and> get stored ''metadata'' =
        (if get entity ''metadata'' = Undefined then Null
         else JsonText (to_json (get entity ''metadata'')))
    \<and> get stored ''relationships'' =
        (if get entity ''relationships'' = Undefined then Null
         else JsonText (to_json (get entity ''relationships'')))
    \<and> (\<forall>k. k \<notin> {''id'', ''timestamp'', ''lastAccessed'', ''tags'', ''metadata'',
                       ''relationships'', ''createdAt'', ''updatedAt''} \<longrightarrow>
         get stored k =
           (if k \<notin> fst ` set entity then Undefined
            else if get entity k = Undefined then Null else get entity k))"
    and "get stored ''updatedAt'' = IsoText now"
    and "get stored ''createdAt'' =
       (case get entity ''createdAt'' of DateV t \<Rightarrow> IsoText t | _ \<Rightarrow> IsoText now)"
proof -
  note r = memory_row [OF conv]
  have idC: "''id'' \<notin> {''timestamp'', ''lastAccessed'', ''tags'', ''metadata'', ''relationships'', ''createdAt'',
        ''updatedAt''}"
    by simp
  note b = bound_row [OF keys vals r(1) r(9) idC]
  have k0: "(\<exists>t. get entity ''timestamp'' = DateV t \<and> get stored ''timestamp'' = IsoText t)"
    using b(2) [of "''timestamp''"] r(2) by (auto simp add: bind_if bind_iso bind_stringify)
  have k1: "get stored ''lastAccessed'' =
         (case get entity ''lastAccessed'' of DateV t \<Rightarrow> IsoText t | _ \<Rightarrow> Null)"
    using b(2) [of "''lastAccessed''"] r(3) by (auto simp add: bind_if bind_iso bind_stringify)
  have k2: "get stored ''tags'' =
         (if get entity ''tags'' = Undefined then Null
          else JsonText (to_json (get entity ''tags'')))"
    using b(2) [of "''tags''"] r(4) by (auto simp add: bind_if bind_iso bind_stringify)
  have k3: "get stored ''metadata'' =
         (if get entity ''metadata'' = Undefined then Null
          else JsonText (to_json (get entity ''metadata'')))"
    using b(2) [of "''metadata''"] r(5) by (auto simp add: bind_if bind_iso bind_stringify)
  have k4: "get stored ''relationships'' =
         (if get entity ''relationships'' = Undefined then Null
          else JsonText (to_json (get entity ''relationships'')))"
    using b(2) [of "''relationships''"] r(6) by (auto simp add: bind_if bind_iso bind_stringify)
  have ko: "(\<forall>k. k \<notin> {''id'', ''timestamp'', ''lastAccessed'', ''tags'', ''metadata'',
                        ''relationships'', ''createdAt'', ''updatedAt''} \<longrightarrow>
          get stored k =
            (if k \<notin> fst ` set entity then Undefined
             else if get entity k = Undefined then Null else get entity k))"
    using b(3) by simp
  from b(1) k0 k1 k2 k3 k4 ko
  show "fst ` set stored - {''id''} =
        (fst ` set entity \<union> {''timestamp'', ''lastAccessed'', ''tags'', ''metadata'',
           ''relationships'', ''createdAt'', ''updatedAt''}) - {''id''}
    \<and> (\<exists>t. get entity ''timestamp'' = DateV t \<and> get stored ''timestamp'' = IsoText t)
    \<and> get stored ''lastAccessed'' =
        (case get entity ''lastAccessed'' of DateV t \<Rightarrow> IsoText t | _ \<Rightarrow> Null)
    \<and> get stored ''tags'' =
        (if get entity ''tags'' = Undefined then Null
         else JsonText (to_json (get entity ''tags'')))
    \<and> get stored ''metadata'' =
        (if get entity ''metadata'' = Undefined then Null
         else JsonText (to_json (get entity ''metadata'')))
    \<and> get stored ''relationships'' =
        (if get entity ''relationships'' = Undefined then Null
         else JsonText (to_json (get entity ''relationships'')))
    \<and> (\<forall>k. k \<notin> {''id'', ''timestamp'', ''lastAccessed'', ''tags'', ''metadata'',
                       ''relationships'', ''createdAt'', ''updatedAt''} \<longrightarrow>
         get stored k =
           (if k \<notin> fst ` set entity then Undefined
            else if get entity k = Undefined then Null else get entity k))"
    by (intro conjI)
  show "get stored ''updatedAt'' = IsoText now"
    using b(2) [of "''updatedAt''"] r(8) by (simp add: bind_iso)
  show "get stored ''createdAt'' =
       (case get entity ''createdAt'' of DateV t \<Rightarrow> IsoText t | _ \<Rightarrow> IsoText now)"
    using b(2) [of "''createdAt''"] r(7) by (simp add: bind_iso)
qed

lemma timeEntry_stored:
  assumes keys: "fst ` set stored = fst ` set row - {''id''}"
    and vals: "\<forall>k. k \<noteq> ''id'' \<longrightarrow> get stored k =
             (if k \<in> fst ` set row then bind_param (get row k) else Undefined)"
    and conv: "timeEntry_entityToRow now entity = Inr row"
  shows "fst ` set stored - {''id''} =
        (fst ` set entity \<union> {''startTime'', ''endTime'', ''tags'', ''metadata'',
           ''createdAt'', ''updatedAt''}) - {''id''}
    \<and> (\<exists>t. get entity ''startTime'' = DateV t \<and> get stored ''startTime'' = IsoText t)
    \<and> get stored ''endTime'' =
        (case get entity ''endTime'' of DateV t \<Rightarrow> IsoText t | _ \<Rightarrow> Null)
    \<and> get stored ''tags'' =
        (if truthy (get entity ''tags'') then JsonText (to_json (get entity ''tags''))
         else JsonText (JArr []))
    \<and> get stored ''metadata'' =
        (if truthy (get entity ''metadata'') then JsonText (to_json (get entity ''metadata''))
         else JsonText (JObj []))
    \<and> (\<forall>k. k \<notin> {''id'', ''startTime'', ''endTime'', ''tags'', ''metadata'',
                       ''createdAt'', ''updatedAt''} \<longrightarrow>
         get stored k =
           (if k \<notin> fst ` set entity then Undefined
            else if get entity k = Undefined then Null else get entity k))"
    and "get stored ''updatedAt'' = IsoText now"
    and "get stored ''createdAt'' =
       (case get entity ''createdAt'' of DateV t \<Rightarrow> IsoText t | _ \<Rightarrow> IsoText now)"
proof -
  note r = timeEntry_row [OF conv]
  have idC: "''id'' \<notin> {''startTime'', ''endTime'', ''tags'', ''metadata'', ''createdAt'', ''updatedAt''}"
    by simp
  note b = bound_row [OF keys vals r(1) r(8) idC]
  have k0: "(\<exists>t. get entity ''startTime'' = DateV t \<and> get stored ''startTime'' = IsoText t)"
    using b(2) [of "''startTime''"] r(2) by (auto simp add: bind_if bind_iso bind_stringify)
  have k1: "get stored ''endTime'' =
         (case get entity ''endTime'' of DateV t \<Rightarrow> IsoText t | _ \<Rightarrow> Null)"
    using b(2) [of "''endTime''"] r(3) by (auto simp add: bind_if bind_iso bind_stringify)
  have k2: "get stored ''tags'' =
         (if truthy (get entity ''tags'') then JsonText (to_json (get entity ''tags''))
          else JsonText (JArr []))"
    using b(2) [of "''tags''"] r(4) by (auto simp add: bind_if bind_iso bind_stringify)
  have k3: "get stored ''metadata'' =
         (if truthy (get entity ''metadata'') then JsonText (to_json (get entity ''metadata''))
          else JsonText (JObj []))"
    using b(2) [of "''metadata''"] r(5) by (auto simp add: bind_if bind_iso bind_stringify)
  have ko: "(\<forall>k. k \<notin> {''id'', ''startTime'', ''endTime'', ''tags'', ''metadata'',
                        ''createdAt'', ''updatedAt''} \<longrightarrow>
          get stored k =
            (if k \<notin> fst ` set entity then Undefined
             else if get entity k = Undefined then Null else get entity k))"
    using b(3) by simp
  from b(1) k0 k1 k2 k3 ko
  show "fst ` set stored - {''id''} =
        (fst ` set entity \<union> {''startTime'', ''endTime'', ''tags'', ''metadata'',
           ''createdAt'', ''updatedAt''}) - {''id''}
    \<and> (\<exists>t. get entity ''startTime'' = DateV t \<and> get stored ''startTime'' = IsoText t)
    \<and> get stored ''endTime'' =
        (case get entity ''endTime'' of DateV t \<Rightarrow> IsoText t | _ \<Rightarrow> Null)
    \<and> get stored ''tags'' =
        (if truthy (get entity ''tags'') then JsonText (to_json (get entity ''tags''))
         else JsonText (JArr []))
    \<and> get stored ''metadata'' =
        (if truthy (get entity ''metadata'') then JsonText (to_json (get entity ''metadata''))
         else JsonText (JObj []))
    \<and> (\<forall>k. k \<notin> {''id'', ''startTime'', ''endTime'', ''tags'', ''metadata'',
                       ''createdAt'', ''updatedAt''} \<longrightarrow>
         get stored k =
           (if k \<notin> fst ` set entity then Undefined
            else if get entity k = Undefined then Null else get entity k))"
    by (intro conjI)
  show "get stored ''updatedAt'' = IsoText now"
    using b(2) [of "''updatedAt''"] r(7) by (simp add: bind_iso)
  show "get stored ''createdAt'' =
       (case get entity ''createdAt'' of DateV t \<Rightarrow> IsoText t | _ \<Rightarrow> IsoText now)"
    using b(2) [of "''createdAt''"] r(6) by (simp add: bind_iso)
qed

lemma notification_stored:
  assumes keys: "fst ` set stored = fst ` set row - {''id''}"
    and vals: "\<forall>k. k \<noteq> ''id'' \<longrightarrow> get stored k =
             (if k \<in> fst ` set row then bind_param (get row k) else Undefined)"
    and conv: "notification_entityToRow now entity = Inr row"
  shows "fst ` set stored - {''id''} =
        (fst ` set entity \<union> {''timestamp'', ''expiresAt'', ''actions'', ''metadata'',
           ''createdAt'', ''updatedAt''}) - {''id''}
    \<and> (\<exists>t. get entity ''timestamp'' = DateV t \<and> get stored ''timestamp'' = IsoText t)
    \<and> get stored ''expiresAt'' =
        (case get entity ''expiresAt'' of DateV t \<Rightarrow> IsoText t | _ \<Rightarrow> Null)
    \<and> get stored ''actions'' =
        (if truthy (get entity ''actions'') then JsonText (to_json (get entity ''actions''))
         else Null)
    \<and> get stored ''metadata'' =
        (if truthy (get entity ''metadata'') then JsonText (to_json (get entity ''metadata''))
         else JsonText (JObj []))
    \<and> (\<forall>k. k \<notin> {''id'', ''timestamp'', ''expiresAt'', ''actions'', ''metadata'',
                       ''createdAt'', ''updatedAt''} \<longrightarrow>
         get stored k =
           (if k \<notin> fst ` set entity then Undefined
            else if get entity k = Undefined then Null else get entity k))"
    and "get stored ''updatedAt'' = IsoText now"
    and "get stored ''createdAt'' =
       (case get entity ''createdAt'' of DateV t \<Rightarrow> IsoText t | _ \<Rightarrow> IsoText now)"
proof -
  note r = notification_row [OF conv]
  have idC: "''id'' \<notin> {''timestamp'', ''expiresAt'', ''actions'', ''metadata'', ''createdAt'', ''updatedAt''}"
    by simp
  note b = bound_row [OF keys vals r(1) r(8) idC]
  have k0: "(\<exists>t. get entity ''timestamp'' = DateV t \<and> get stored ''timestamp'' = IsoText t)"
    using b(2) [of "''timestamp''"] r(2) by (auto simp add: bind_if bind_iso bind_stringify)
  have k1: "get stored ''expiresAt'' =
         (case get entity ''expiresAt'' of DateV t \<Rightarrow> IsoText t | _ \<Rightarrow> Null)"
    using b(2) [of "''expiresAt''"] r(3) by (auto simp add: bind_if bind_iso bind_stringify)
  have k2: "get stored ''actions'' =
         (if truthy (get entity ''actions'') then JsonText (to_json (get entity ''actions''))
          else Null)"
    using b(2) [of "''actions''"] r(4) by (auto simp add: bind_if bind_iso bind_stringify)
  have k3: "get stored ''metadata'' =
         (if truthy (get entity ''metadata'') then JsonText (to_json (get entity ''metadata''))
          else JsonText (JObj []))"
    using b(2) [of "''metadata''"] r(5) by (auto simp add: bind_if bind_iso bind_stringify)
  have ko: "(\<forall>k. k \<notin> {''id'', ''timestamp'', ''expiresAt'', ''actions'', ''metadata'',
                        ''createdAt'', ''updatedAt''} \<longrightarrow>
          get stored k =
            (if k \<notin> fst ` set entity then Undefined
             else if get entity k = Undefined then Null else get entity k))"
    using b(3) by simp
  from b(1) k0 k1 k2 k3 ko
  show "fst ` set stored - {''id''} =
        (fst ` set entity \<union> {''timestamp'', ''expiresAt'', ''actions'', ''metadata'',
           ''createdAt'', ''updatedAt''}) - {''id''}
    \<and> (\<exists>t. get entity ''timestamp'' = DateV t \<and> get stored ''timestamp'' = IsoText t)
    \<and> get stored ''expiresAt'' =
        (case get entity ''expiresAt'' of DateV t \<Rightarrow> IsoText t | _ \<Rightarrow> Null)
    \<and> get stored ''actions'' =
        (if truthy (get entity ''actions'') then JsonText (to_json (get entity ''actions''))
         else Null)
    \<and> get stored ''metadata'' =
        (if truthy (get entity ''metadata'') then JsonText (to_json (get entity ''metadata''))
         else JsonText (JObj []))
    \<and> (\<forall>k. k \<notin> {''id'', ''timestamp'', ''expiresAt'', ''actions'', ''metadata'',
                       ''createdAt'', ''updatedAt''} \<longrightarrow>
         get stored k =
           (if k \<notin> fst ` set entity then Undefined
            else if get entity k = Undefined then Null else get entity k))"
    by (intro conjI)
  show "get stored ''updatedAt'' = IsoText now"
    using b(2) [of "''updatedAt''"] r(7) by (simp add: bind_iso)
  show "get stored ''createdAt'' =
       (case get entity ''createdAt'' of DateV t \<Rightarrow> IsoText t | _ \<Rightarrow> IsoText now)"
    using b(2) [of "''createdAt''"] r(6) by (simp add: bind_iso)
qed

text \<open>
  C1, as the code has it. When \<open>create\<close> succeeds in the task, memory, time entry or
  notification repository, exactly one row is appended to the table, under a row
  identifier no other row has. On every field other than \<open>id\<close> the entity returned
  has the caller's values, and the row stored has: the clock as \<open>updatedAt\<close>; as
  \<open>createdAt\<close> the caller's creation date when one was supplied and the clock otherwise;
  each date field as its date text, a missing optional date as NULL; each structured
  field as its JSON text, a missing one as the repository's fallback (NULL, or the text
  of the empty array or object); and every other field as the caller gave it, an
  undefined one as NULL. The row has no column, other than \<open>id\<close>, beyond the entity's
  fields and the converted ones.
\<close>

theorem create_assigns:
  assumes "R = TaskRepository \<or> R = MemoryRepository \<or> R = TimeEntryRepository
           \<or> R = NotificationRepository"
    and "create R now entity tbl = (Inr created, tbl')"
  shows "\<exists>rid stored.
           tbl' = tbl @ [(rid, stored)]
         \<and> rid \<notin> fst ` set tbl
         \<and> (\<forall>k. k \<noteq> ''id'' \<longrightarrow> get created k = get entity k)
         \<and> get stored ''updatedAt'' = IsoText now
         \<and> get stored ''createdAt'' =
             (case get entity ''createdAt'' of DateV t \<Rightarrow> IsoText t | _ \<Rightarrow> IsoText now)
         \<and> (R = TaskRepository \<longrightarrow>
                 fst ` set stored - {''id''} =
                   (fst ` set entity \<union> {''metadata'', ''dueDate'', ''createdAt'',
                      ''updatedAt''}) - {''id''}
               \<and> get stored ''metadata'' =
                   (if truthy (get entity ''metadata'') then JsonText (to_json (get entity ''metadata''))
                    else Null)
               \<and> get stored ''dueDate'' =
                   (case get entity ''dueDate'' of DateV t \<Rightarrow> IsoText t | _ \<Rightarrow> Null)
               \<and> (\<forall>k. k \<notin> {''id'', ''metadata'', ''dueDate'', ''createdAt'',
                                  ''updatedAt''} \<longrightarrow>
                    get stored k =
                      (if k \<notin> fst ` set entity then Undefined
                       else if get entity k = Undefined then Null else get entity k)))
         \<and> (R = MemoryRepository \<longrightarrow>
                 fst ` set stored - {''id''} =
                   (fst ` set entity \<union> {''timestamp'', ''lastAccessed'', ''tags'',
                      ''metadata'', ''relationships'', ''createdAt'', ''updatedAt''}) - {''id''}
               \<and> (\<exists>t. get entity ''timestamp'' = DateV t \<and> get stored ''timestamp'' = IsoText t)
               \<and> get stored ''lastAccessed'' =
                   (case get entity ''lastAccessed'' of DateV t \<Rightarrow> IsoText t | _ \<Rightarrow> Null)
               \<and> get stored ''tags'' =
                   (if get entity ''tags'' = Undefined then Null
                    else JsonText (to_json (get entity ''tags'')))
               \<and> get stored ''metadata'' =
                   (if get entity ''metadata'' = Undefined then Null
                    else JsonText (to_json (get entity ''metadata'')))
               \<and> get stored ''relationships'' =
                   (if get entity ''relationships'' = Undefined then Null
                    else JsonText (to_json (get entity ''relationships'')))
               \<and> (\<forall>k. k \<notin> {''id'', ''timestamp'', ''lastAccessed'', ''tags'',
                                  ''metadata'', ''relationships'', ''createdAt'',
                                  ''updatedAt''} \<longrightarrow>
                    get stored k =
                      (if k \<notin> fst ` set entity then Undefined
                       else if get entity k = Undefined then Null else get entity k)))
         \<and> (R = TimeEntryRepository \<longrightarrow>
                 fst ` set stored - {''id''} =
                   (fst ` set entity \<union> {''startTime'', ''endTime'', ''tags'',
                      ''metadata'', ''createdAt'', ''updatedAt''}) - {''id''}
               \<and> (\<exists>t. get entity ''startTime'' = DateV t \<and> get stored ''startTime'' = IsoText t)
               \<and> get stored ''endTime'' =
                   (case get entity ''endTime'' of DateV t \<Rightarrow> IsoText t | _ \<Rightarrow> Null)
               \<and> get stored ''tags'' =
                   (if truthy (get entity ''tags'') then JsonText (to_json (get entity ''tags''))
                    else JsonText (JArr []))
               \<and> get stored ''metadata'' =
                   (if truthy (get entity ''metadata'') then JsonText (to_json (get entity ''metadata''))
                    else JsonText (JObj []))
               \<and> (\<forall>k. k \<notin> {''id'', ''startTime'', ''endTime'', ''tags'',
                                  ''metadata'', ''createdAt'', ''updatedAt''} \<longrightarrow>
                    get stored k =
                      (if k \<notin> fst ` set entity then Undefined
                       else if get entity k = Undefined then Null else get entity k)))
         \<and> (R = NotificationRepository \<longrightarrow>
                 fst ` set stored - {''id''} =
                   (fst ` set entity \<union> {''timestamp'', ''expiresAt'', ''actions'',
                      ''metadata'', ''createdAt'', ''updatedAt''}) - {''id''}
               \<and> (\<exists>t. get entity ''timestamp'' = DateV t \<and> get stored ''timestamp'' = IsoText t)
               \<and> get stored ''expiresAt'' =
                   (case get entity ''expiresAt'' of DateV t \<Rightarrow> IsoText t | _ \<Rightarrow> Null)
               \<and> get stored ''actions'' =
                   (if truthy (get entity ''actions'') then JsonText (to_json (get entity ''actions''))
                    else Null)
               \<and> get stored ''metadata'' =
                   (if truthy (get entity ''metadata'') then JsonText (to_json (get entity ''metadata''))
                    else JsonText (JObj []))
               \<and> (\<forall>k. k \<notin> {''id'', ''timestamp'', ''expiresAt'', ''actions'',
                                  ''metadata'', ''createdAt'', ''updatedAt''} \<longrightarrow>
                    get stored k =
                      (if k \<notin> fst ` set entity then Undefined
                       else if get entity k = Undefined then Null else get entity k)))"
proof -
  from assms(2) obtain row stored
    where row: "entityToRow R now entity = Inr row"
      and tbl': "tbl' = tbl @ [(next_rowid tbl, stored)]"
      and created: "created = AList.update ''id'' (Num (of_int (next_rowid tbl))) entity"
      and keys: "fst ` set stored = fst ` set row - {''id''}"
      and vals: "\<forall>k. k \<noteq> ''id'' \<longrightarrow> get stored k =
             (if k \<in> fst ` set row then bind_param (get row k) else Undefined)"
    by (rule create_Inr)
  have ret: "\<forall>k. k \<noteq> ''id'' \<longrightarrow> get created k = get entity k"
    by (simp add: created get_update)
  have conv:
    "R = TaskRepository \<Longrightarrow> task_entityToRow now entity = Inr row"
    "R = MemoryRepository \<Longrightarrow> memory_entityToRow now entity = Inr row"
    "R = TimeEntryRepository \<Longrightarrow> timeEntry_entityToRow now entity = Inr row"
    "R = NotificationRepository \<Longrightarrow> notification_entityToRow now entity = Inr row"
    using row
    by (simp_all add: TaskRepository_def MemoryRepository_def TimeEntryRepository_def
        NotificationRepository_def)
  from assms(1) consider (task) "R = TaskRepository" | (memory) "R = MemoryRepository"
    | (timeEntry) "R = TimeEntryRepository" | (notification) "R = NotificationRepository"
    by blast
  then have stamps: "get stored ''updatedAt'' = IsoText now
     \<and> get stored ''createdAt'' =
       (case get entity ''createdAt'' of DateV t \<Rightarrow> IsoText t | _ \<Rightarrow> IsoText now)"
  proof cases
    case task
    from task_stored(2,3) [OF keys vals conv(1) [OF task]] show ?thesis by (intro conjI)
  next
    case memory
    from memory_stored(2,3) [OF keys vals conv(2) [OF memory]] show ?thesis by (intro conjI)
  next
    case timeEntry
    from timeEntry_stored(2,3) [OF keys vals conv(3) [OF timeEntry]] show ?thesis
      by (intro conjI)
  next
    case notification
    from notification_stored(2,3) [OF keys vals conv(4) [OF notification]] show ?thesis
      by (intro conjI)
  qed
  have i0: "(R = TaskRepository \<longrightarrow>
                 fst ` set stored - {''id''} =
                   (fst ` set entity \<union> {''metadata'', ''dueDate'', ''createdAt'',
                      ''updatedAt''}) - {''id''}
               \<and> get stored ''metadata'' =
                   (if truthy (get entity ''metadata'') then JsonText (to_json (get entity ''metadata''))
                    else Null)
               \<and> get stored ''dueDate'' =
                   (case get entity ''dueDate'' of DateV t \<Rightarrow> IsoText t | _ \<Rightarrow> Null)
               \<and> (\<forall>k. k \<notin> {''id'', ''metadata'', ''dueDate'', ''createdAt'',
                                  ''updatedAt''} \<longrightarrow>
                    get stored k =
                      (if k \<notin> fst ` set entity then Undefined
                       else if get entity k = Undefined then Null else get entity k)))"
  proof
    assume a: "R = TaskRepository"
    show "fst ` set stored - {''id''} =
                   (fst ` set entity \<union> {''metadata'', ''dueDate'', ''createdAt'',
                      ''updatedAt''}) - {''id''}
               \<and> get stored ''metadata'' =
                   (if truthy (get entity ''metadata'') then JsonText (to_json (get entity ''metadata''))
                    else Null)
               \<and> get stored ''dueDate'' =
                   (case get entity ''dueDate'' of DateV t \<Rightarrow> IsoText t | _ \<Rightarrow> Null)
               \<and> (\<forall>k. k \<notin> {''id'', ''metadata'', ''dueDate'', ''createdAt'',
                                  ''updatedAt''} \<longrightarrow>
                    get stored k =
                      (if k \<notin> fst ` set entity then Undefined
                       else if get entity k = Undefined then Null else get entity k))"
      by (rule task_stored(1) [OF keys vals conv(1) [OF a]])
  qed
  have i1: "(R = MemoryRepository \<longrightarrow>
                 fst ` set stored - {''id''} =
                   (fst ` set entity \<union> {''timestamp'', ''lastAccessed'', ''tags'',
                      ''metadata'', ''relationships'', ''createdAt'', ''updatedAt''}) - {''id''}
               \<and> (\<exists>t. get entity ''timestamp'' = DateV t \<and> get stored ''timestamp'' = IsoText t)
               \<and> get stored ''lastAccessed'' =
                   (case get entity ''lastAccessed'' of DateV t \<Rightarrow> IsoText t | _ \<Rightarrow> Null)
               \<and> get stored ''tags'' =
                   (if get entity ''tags'' = Undefined then Null
                    else JsonText (to_json (get entity ''tags'')))
               \<and> get stored ''metadata'' =
                   (if get entity ''metadata'' = Undefined then Null
                    else JsonText (to_json (get entity ''metadata'')))
               \<and> get stored ''relationships'' =
                   (if get entity ''relationships'' = Undefined then Null
                    else JsonText (to_json (get entity ''relationships'')))
               \<and> (\<forall>k. k \<notin> {''id'', ''timestamp'', ''lastAccessed'', ''tags'',
                                  ''metadata'', ''relationships'', ''createdAt'',
                                  ''updatedAt''} \<longrightarrow>
                    get stored k =
                      (if k \<notin> fst ` set entity then Undefined
                       else if get entity k = Undefined then Null else get entity k)))"
  proof
    assume a: "R = MemoryRepository"
    show "fst ` set stored - {''id''} =
                   (fst ` set entity \<union> {''timestamp'', ''lastAccessed'', ''tags'',
                      ''metadata'', ''relationships'', ''createdAt'', ''updatedAt''}) - {''id''}
               \<and> (\<exists>t. get entity ''timestamp'' = DateV t \<and> get stored ''timestamp'' = IsoText t)
               \<and> get stored ''lastAccessed'' =
                   (case get entity ''lastAccessed'' of DateV t \<Rightarrow> IsoText t | _ \<Rightarrow> Null)
               \<and> get stored ''tags'' =
                   (if get entity ''tags'' = Undefined then Null
                    else JsonText (to_json (get entity ''tags'')))
               \<and> get stored ''metadata'' =
                   (if get entity ''metadata'' = Undefined then Null
                    else JsonText (to_json (get entity ''metadata'')))
               \<and> get stored ''relationships'' =
                   (if get entity ''relationships'' = Undefined then Null
                    else JsonText (to_json (get entity ''relationships'')))
               \<and> (\<forall>k. k \<notin> {''id'', ''timestamp'', ''lastAccessed'', ''tags'',
                                  ''metadata'', ''relationships'', ''createdAt'',
                                  ''updatedAt''} \<longrightarrow>
                    get stored k =
                      (if k \<notin> fst ` set entity then Undefined
                       else if get entity k = Undefined then Null else get entity k))"
      by (rule memory_stored(1) [OF keys vals conv(2) [OF a]])
  qed
  have i2: "(R = TimeEntryRepository \<longrightarrow>
                 fst ` set stored - {''id''} =
                   (fst ` set entity \<union> {''startTime'', ''endTime'', ''tags'',
                      ''metadata'', ''createdAt'', ''updatedAt''}) - {''id''}
               \<and> (\<exists>t. get entity ''startTime'' = DateV t \<and> get stored ''startTime'' = IsoText t)
               \<and> get stored ''endTime'' =
                   (case get entity ''endTime'' of DateV t \<Rightarrow> IsoText t | _ \<Rightarrow> Null)
               \<and> get stored ''tags'' =
                   (if truthy (get entity ''tags'') then JsonText (to_json (get entity ''tags''))
                    else JsonText (JArr []))
               \<and> get stored ''metadata'' =
                   (if truthy (get entity ''metadata'') then JsonText (to_json (get entity ''metadata''))
                    else JsonText (JObj []))
               \<and> (\<forall>k. k \<notin> {''id'', ''startTime'', ''endTime'', ''tags'',
                                  ''metadata'', ''createdAt'', ''updatedAt''} \<longrightarrow>
                    get stored k =
                      (if k \<notin> fst ` set entity then Undefined
                       else if get entity k = Undefined then Null else get entity k)))"
  proof
    assume a: "R = TimeEntryRepository"
    show "fst ` set stored - {''id''} =
                   (fst ` set entity \<union> {''startTime'', ''endTime'', ''tags'',
                      ''metadata'', ''createdAt'', ''updatedAt''}) - {''id''}
               \<and> (\<exists>t. get entity ''startTime'' = DateV t \<and> get stored ''startTime'' = IsoText t)
               \<and> get stored ''endTime'' =
                   (case get entity ''endTime'' of DateV t \<Rightarrow> IsoText t | _ \<Rightarrow> Null)
               \<and> get stored ''tags'' =
                   (if truthy (get entity ''tags'') then JsonText (to_json (get entity ''tags''))
                    else JsonText (JArr []))
               \<and> get stored ''metadata'' =
                   (if truthy (get entity ''metadata'') then JsonText (to_json (get entity ''metadata''))
                    else JsonText (JObj []))
               \<and> (\<forall>k. k \<notin> {''id'', ''startTime'', ''endTime'', ''tags'',
                                  ''metadata'', ''createdAt'', ''updatedAt''} \<longrightarrow>
                    get stored k =
                      (if k \<notin> fst ` set entity then Undefined
                       else if get entity k = Undefined then Null else get entity k))"
      by (rule timeEntry_stored(1) [OF keys vals conv(3) [OF a]])
  qed
  have i3: "(R = NotificationRepository \<longrightarrow>
                 fst ` set stored - {''id''} =
                   (fst ` set entity \<union> {''timestamp'', ''expiresAt'', ''actions'',
                      ''metadata'', ''createdAt'', ''updatedAt''}) - {''id''}
               \<and> (\<exists>t. get entity ''timestamp'' = DateV t \<and> get stored ''timestamp'' = IsoText t)
               \<and> get stored ''expiresAt'' =
                   (case get entity ''expiresAt'' of DateV t \<Rightarrow> IsoText t | _ \<Rightarrow> Null)
               \<and> get stored ''actions'' =
                   (if truthy (get entity ''actions'') then JsonText (to_json (get entity ''actions''))
                    else Null)
               \<and> get stored ''metadata'' =
                   (if truthy (get entity ''metadata'') then JsonText (to_json (get entity ''metadata''))
                    else JsonText (JObj []))
               \<and> (\<forall>k. k \<notin> {''id'', ''timestamp'', ''expiresAt'', ''actions'',
                                  ''metadata'', ''createdAt'', ''updatedAt''} \<longrightarrow>
                    get stored k =
                      (if k \<notin> fst ` set entity then Undefined
                       else if get entity k = Undefined then Null else get entity k)))"
  proof
    assume a: "R = NotificationRepository"
    show "fst ` set stored - {''id''} =
                   (fst ` set entity \<union> {''timestamp'', ''expiresAt'', ''actions'',
                      ''metadata'', ''createdAt'', ''updatedAt''}) - {''id''}
               \<and> (\<exists>t. get entity ''timestamp'' = DateV t \<and> get stored ''timestamp'' = IsoText t)
               \<and> get stored ''expiresAt'' =
                   (case get entity ''expiresAt'' of DateV t \<Rightarrow> IsoText t | _ \<Rightarrow> Null)
               \<and> get stored ''actions'' =
                   (if truthy (get entity ''actions'') then JsonText (to_json (get entity ''actions''))
                    else Null)
               \<and> get stored ''metadata'' =
                   (if truthy (get entity ''metadata'') then JsonText (to_json (get entity ''metadata''))
                    else JsonText (JObj []))
               \<and> (\<forall>k. k \<notin> {''id'', ''timestamp'', ''expiresAt'', ''actions'',
                                  ''metadata'', ''createdAt'', ''updatedAt''} \<longrightarrow>
                    get stored k =
                      (if k \<notin> fst ` set entity then Undefined
                       else if get entity k = Undefined then Null else get entity k))"
      by (rule notification_stored(1) [OF keys vals conv(4) [OF a]])
  qed
  have rid: "next_rowid tbl \<notin> fst ` set tbl" by (rule next_rowid_fresh)
  note su = stamps [THEN conjunct1] and sc = stamps [THEN conjunct2]
  from tbl' rid ret su sc i0 i1 i2 i3
  have final: "tbl' = tbl @ [(next_rowid tbl, stored)]
         \<and> next_rowid tbl \<notin> fst ` set tbl
         \<and> (\<forall>k. k \<noteq> ''id'' \<longrightarrow> get created k = get entity k)
         \<and> get stored ''updatedAt'' = IsoText now
         \<and> get stored ''createdAt'' =
             (case get entity ''createdAt'' of DateV t \<Rightarrow> IsoText t | _ \<Rightarrow> IsoText now)
         \<and> (R = TaskRepository \<longrightarrow>
                 fst ` set stored - {''id''} =
                   (fst ` set entity \<union> {''metadata'', ''dueDate'', ''createdAt'',
                      ''updatedAt''}) - {''id''}
               \<and> get stored ''metadata'' =
                   (if truthy (get entity ''metadata'') then JsonText (to_json (get entity ''metadata''))
                    else Null)
               \<and> get stored ''dueDate'' =
                   (case get entity ''dueDate'' of DateV t \<Rightarrow> IsoText t | _ \<Rightarrow> Null)
               \<and> (\<forall>k. k \<notin> {''id'', ''metadata'', ''dueDate'', ''createdAt'',
                                  ''updatedAt''} \<longrightarrow>
                    get stored k =
                      (if k \<notin> fst ` set entity then Undefined
                       else if get entity k = Undefined then Null else get entity k)))
         \<and> (R = MemoryRepository \<longrightarrow>
                 fst ` set stored - {''id''} =
                   (fst ` set entity \<union> {''timestamp'', ''lastAccessed'', ''tags'',
                      ''metadata'', ''relationships'', ''createdAt'', ''updatedAt''}) - {''id''}
               \<and> (\<exists>t. get entity ''timestamp'' = DateV t \<and> get stored ''timestamp'' = IsoText t)
               \<and> get stored ''lastAccessed'' =
                   (case get entity ''lastAccessed'' of DateV t \<Rightarrow> IsoText t | _ \<Rightarrow> Null)
               \<and> get stored ''tags'' =
                   (if get entity ''tags'' = Undefined then Null
                    else JsonText (to_json (get entity ''tags'')))
               \<and> get stored ''metadata'' =
                   (if get entity ''metadata'' = Undefined then Null
                    else JsonText (to_json (get entity ''metadata'')))
               \<and> get stored ''relationships'' =
                   (if get entity ''relationships'' = Undefined then Null
                    else JsonText (to_json (get entity ''relationships'')))
               \<and> (\<forall>k. k \<notin> {''id'', ''timestamp'', ''lastAccessed'', ''tags'',
                                  ''metadata'', ''relationships'', ''createdAt'',
                                  ''updatedAt''} \<longrightarrow>
                    get stored k =
                      (if k \<notin> fst ` set entity then Undefined
                       else if get entity k = Undefined then Null else get entity k)))
         \<and> (R = TimeEntryRepository \<longrightarrow>
                 fst ` set stored - {''id''} =
                   (fst ` set entity \<union> {''startTime'', ''endTime'', ''tags'',
                      ''metadata'', ''createdAt'', ''updatedAt''}) - {''id''}
               \<and> (\<exists>t. get entity ''startTime'' = DateV t \<and> get stored ''startTime'' = IsoText t)
               \<and> get stored ''endTime'' =
                   (case get entity ''endTime'' of DateV t \<Rightarrow> IsoText t | _ \<Rightarrow> Null)
               \<and> get stored ''tags'' =
                   (if truthy (get entity ''tags'') then JsonText (to_json (get entity ''tags''))
                    else JsonText (JArr []))
               \<and> get stored ''metadata'' =
                   (if truthy (get entity ''metadata'') then JsonText (to_json (get entity ''metadata''))
                    else JsonText (JObj []))
               \<and> (\<forall>k. k \<notin> {''id'', ''startTime'', ''endTime'', ''tags'',
                                  ''metadata'', ''createdAt'', ''updatedAt''} \<longrightarrow>
                    get stored k =
                      (if k \<notin> fst ` set entity then Undefined
                       else if get entity k = Undefined then Null else get entity k)))
         \<and> (R = NotificationRepository \<longrightarrow>
                 fst ` set stored - {''id''} =
                   (fst ` set entity \<union> {''timestamp'', ''expiresAt'', ''actions'',
                      ''metadata'', ''createdAt'', ''updatedAt''}) - {''id''}
               \<and> (\<exists>t. get entity ''timestamp'' = DateV t \<and> get stored ''timestamp'' = IsoText t)
               \<and> get stored ''expiresAt'' =
                   (case get entity ''expiresAt'' of DateV t \<Rightarrow> IsoText t | _ \<Rightarrow> Null)
               \<and> get stored ''actions'' =
                   (if truthy (get entity ''actions'') then JsonText (to_json (get entity ''actions''))
                    else Null)
               \<and> get stored ''metadata'' =
                   (if truthy (get entity ''metadata'') then JsonText (to_json (get entity ''metadata''))
                    else JsonText (JObj []))
               \<and> (\<forall>k. k \<notin> {''id'', ''timestamp'', ''expiresAt'', ''actions'',
                                  ''metadata'', ''createdAt'', ''updatedAt''} \<longrightarrow>
                    get stored k =
                      (if k \<notin> fst ` set entity then Undefined
                       else if get entity k = Undefined then Null else get entity k)))"
    by (intro conjI)
  show ?thesis
    by (rule exI [of _ "next_rowid tbl"], rule exI [of _ stored]) (rule final)
qed


lemmas repo_eval = create_def db_insert_def next_rowid_def bind_param_def TaskRepository_def
  task_entityToRow_def then_do_def iso_or_def spread_def get_def JSON_stringify_def Let_def

text \<open>
  C1 as stated fails. A task created at clock 100 by a caller who supplies creation and
  modification dates of 5 is stored with the caller's creation date, and the entity
  returned carries the caller's dates, not the stored ones.
\<close>

theorem create_takes_caller_createdAt:
  "create TaskRepository 100
     [(''title'', Str ''abc''), (''createdAt'', DateV 5), (''updatedAt'', DateV 5)] []
   = (Inr [(''title'', Str ''abc''), (''createdAt'', DateV 5), (''updatedAt'', DateV 5),
           (''id'', Num 1)],
      [(1, [(''title'', Str ''abc''), (''createdAt'', IsoText 5), (''updatedAt'', IsoText 100),
            (''metadata'', Null), (''dueDate'', Null)])])"
  by (simp add: repo_eval)

text \<open>
  The theorem at a task and at a notification: the rows stored are the entities with
  the dates as date texts, the structured fields as JSON texts, the missing optional
  fields as NULL (or the text of the empty object) and both stamps set to the clock.
\<close>

theorem create_assigns_witness:
  "snd (create TaskRepository 100
          [(''title'', Str ''abc''), (''metadata'', Data (JObj [(''k'', JNum 1)])),
           (''dueDate'', DateV 900)] [])
     = [(1, [(''title'', Str ''abc''), (''metadata'', JsonText (JObj [(''k'', JNum 1)])),
             (''dueDate'', IsoText 900), (''createdAt'', IsoText 100),
             (''updatedAt'', IsoText 100)])]
   \<and> snd (create NotificationRepository 100
          [(''title'', Str ''hi''), (''timestamp'', DateV 7)] [(4, [(''title'', Str ''old'')])])
     = [(4, [(''title'', Str ''old'')]),
        (5, [(''title'', Str ''hi''), (''timestamp'', IsoText 7), (''expiresAt'', Null),
             (''actions'', Null), (''metadata'', JsonText (JObj [])),
             (''createdAt'', IsoText 100), (''updatedAt'', IsoText 100)])]
   \<and> (\<exists>rid stored.
         snd (create TaskRepository 100
          [(''title'', Str ''abc''), (''metadata'', Data (JObj [(''k'', JNum 1)])),
           (''dueDate'', DateV 900)] []) = [(rid, stored)]
       \<and> get stored ''updatedAt'' = IsoText 100
       \<and> get stored ''createdAt'' = IsoText 100
       \<and> get stored ''metadata'' = JsonText (JObj [(''k'', JNum 1)])
       \<and> get stored ''dueDate'' = IsoText 900
       \<and> get stored ''title'' = Str ''abc''
       \<and> get stored ''priority'' = Undefined)
   \<and> (\<exists>rid stored.
         snd (create NotificationRepository 100
          [(''title'', Str ''hi''), (''timestamp'', DateV 7)] [(4, [(''title'', Str ''old'')])])
           = [(4, [(''title'', Str ''old'')]), (rid, stored)]
       \<and> rid \<noteq> 4
       \<and> get stored ''timestamp'' = IsoText 7
       \<and> get stored ''expiresAt'' = Null
       \<and> get stored ''actions'' = Null
       \<and> get stored ''metadata'' = JsonText (JObj [])
       \<and> get stored ''title'' = Str ''hi'')"
proof -
  let ?task = "[(''title'', Str ''abc''), (''metadata'', Data (JObj [(''k'', JNum 1)])),
           (''dueDate'', DateV 900)]"
  let ?note = "[(''title'', Str ''hi''), (''timestamp'', DateV 7)]"
  let ?row = "[(''title'', Str ''abc''), (''metadata'', JsonText (JObj [(''k'', JNum 1)])),
             (''dueDate'', IsoText 900), (''createdAt'', IsoText 100),
             (''updatedAt'', IsoText 100)]"
  let ?nrow = "[(''title'', Str ''hi''), (''timestamp'', IsoText 7), (''expiresAt'', Null),
             (''actions'', Null), (''metadata'', JsonText (JObj [])),
             (''createdAt'', IsoText 100), (''updatedAt'', IsoText 100)]"
  have c: "create TaskRepository 100 ?task [] = (Inr (?task @ [(''id'', Num 1)]), [(1, ?row)])"
    by (simp add: repo_eval)
  have n: "create NotificationRepository 100 ?note [(4, [(''title'', Str ''old'')])]
     = (Inr (?note @ [(''id'', Num 5)]), [(4, [(''title'', Str ''old'')]), (5, ?nrow)])"
    by (simp add: create_def db_insert_def next_rowid_def bind_param_def
        NotificationRepository_def notification_entityToRow_def then_do_def iso_or_def
        spread_def get_def JSON_stringify_def Let_def)
  have r1: "TaskRepository = TaskRepository \<or> TaskRepository = MemoryRepository
      \<or> TaskRepository = TimeEntryRepository \<or> TaskRepository = NotificationRepository"
    by simp
  have r2: "NotificationRepository = TaskRepository \<or> NotificationRepository = MemoryRepository
      \<or> NotificationRepository = TimeEntryRepository
      \<or> NotificationRepository = NotificationRepository"
    by simp
  from create_assigns [OF r1 c]
  have t: "\<exists>rid stored.
      [(1 :: int, ?row)] = [] @ [(rid, stored)]
      \<and> get stored ''updatedAt'' = IsoText 100
      \<and> get stored ''createdAt'' =
          (case get ?task ''createdAt'' of DateV t \<Rightarrow> IsoText t | _ \<Rightarrow> IsoText 100)
      \<and> get stored ''metadata'' =
          (if truthy (get ?task ''metadata'') then JsonText (to_json (get ?task ''metadata''))
           else Null)
      \<and> get stored ''dueDate'' =
          (case get ?task ''dueDate'' of DateV t \<Rightarrow> IsoText t | _ \<Rightarrow> Null)
      \<and> (\<forall>k. k \<notin> {''id'', ''metadata'', ''dueDate'', ''createdAt'', ''updatedAt''} \<longrightarrow>
            get stored k =
              (if k \<notin> fst ` set ?task then Undefined
               else if get ?task k = Undefined then Null else get ?task k))"
    apply (elim exE conjE)
    apply (drule mp [of "TaskRepository = TaskRepository"], rule refl)
    apply (elim conjE)
    apply (intro exI conjI)
         apply assumption+
    done
  from create_assigns [OF r2 n]
  have u: "\<exists>rid stored.
      [(4 :: int, [(''title'', Str ''old'')]), (5, ?nrow)]
        = [(4, [(''title'', Str ''old'')])] @ [(rid, stored)]
      \<and> rid \<notin> fst ` set [(4 :: int, [(''title'', Str ''old'')])]
      \<and> (\<exists>t. get ?note ''timestamp'' = DateV t \<and> get stored ''timestamp'' = IsoText t)
      \<and> get stored ''expiresAt'' =
          (case get ?note ''expiresAt'' of DateV t \<Rightarrow> IsoText t | _ \<Rightarrow> Null)
      \<and> get stored ''actions'' =
          (if truthy (get ?note ''actions'') then JsonText (to_json (get ?note ''actions''))
           else Null)
      \<and> get stored ''metadata'' =
          (if truthy (get ?note ''metadata'') then JsonText (to_json (get ?note ''metadata''))
           else JsonText (JObj []))
      \<and> (\<forall>k. k \<notin> {''id'', ''timestamp'', ''expiresAt'', ''actions'', ''metadata'',
                    ''createdAt'', ''updatedAt''} \<longrightarrow>
            get stored k =
              (if k \<notin> fst ` set ?note then Undefined
               else if get ?note k = Undefined then Null else get ?note k))"
    apply (elim exE conjE)
    apply (drule mp [of "NotificationRepository = NotificationRepository"], rule refl)
    apply (elim exE conjE)
    apply (intro exI conjI)
          apply assumption+
    done
  from t have t': "\<exists>rid stored. [(1 :: int, ?row)] = [(rid, stored)]
       \<and> get stored ''updatedAt'' = IsoText 100
       \<and> get stored ''createdAt'' = IsoText 100
       \<and> get stored ''metadata'' = JsonText (JObj [(''k'', JNum 1)])
       \<and> get stored ''dueDate'' = IsoText 900
       \<and> get stored ''title'' = Str ''abc''
       \<and> get stored ''priority'' = Undefined"
    by (simp add: get_def)
  from u have u': "\<exists>rid stored.
       [(4 :: int, [(''title'', Str ''old'')]), (5, ?nrow)]
         = [(4, [(''title'', Str ''old'')]), (rid, stored)]
       \<and> rid \<noteq> 4
       \<and> get stored ''timestamp'' = IsoText 7
       \<and> get stored ''expiresAt'' = Null
       \<and> get stored ''actions'' = Null
       \<and> get stored ''metadata'' = JsonText (JObj [])
       \<and> get stored ''title'' = Str ''hi''"
    by (simp add: get_def)
  from c n t' u' show ?thesis by simp
qed

subsection \<open>Update of a missing row\<close>

lemma db_update_no_hit:
  assumes "\<forall>r \<in> set tbl. \<not> sql_eq (get (snd r) pk) ident"
  shows "db_update columns vals pk ident tbl = (tbl, \<lparr>lastID = 0, changes = 0\<rparr>)"
  using assms by (simp add: db_update_def Let_def map_idI)

lemma findById_no_row:
  assumes "\<forall>r \<in> set tbl. \<not> sql_eq (get (snd r) (primaryKey R)) ident"
  shows "findById R now ident tbl = Inr None"
proof -
  have "filter (row_matches [(primaryKey R, ident)]) (map snd tbl) = []"
    using assms by (auto simp add: filter_empty_conv row_matches_def)
  then show ?thesis
    by (simp add: findById_def db_get_def db_all_def apply_order_def apply_limit_def)
qed

text \<open>
  C9, as the code has it. \<open>update\<close> converts the partial entity to a row before it
  sends any statement. In any repository, when that conversion yields a row with at
  least one defined column other than \<open>id\<close> and no stored row has the given key, the
  \<^verbatim>\<open>UPDATE\<close> affects zero rows and leaves the table as it was, the re-read finds
  nothing (where \<open>findById\<close> returns its sentinel), and \<open>update\<close> ends with the
  post-update-fetch error and the table unchanged: no sentinel is returned.
\<close>

theorem update_missing_id_raises:
  assumes "entityToRow R now entity = Inr row"
    and "filter (\<lambda>key. key \<noteq> ''id'' \<and> get row key \<noteq> Undefined) (map fst row) \<noteq> []"
    and "\<forall>r \<in> set tbl. \<not> sql_eq (get (snd r) (primaryKey R)) ident"
  shows "update R now ident entity tbl = (Inl PostUpdateFetchFailed, tbl)
       \<and> changes (snd (db_update columns vals (primaryKey R) ident tbl)) = 0
       \<and> fst (db_update columns vals (primaryKey R) ident tbl) = tbl
       \<and> findById R now ident tbl = Inr None"
  using assms by (simp add: update_def Let_def db_update_no_hit findById_no_row)

text \<open>
  The theorem in the base class, whose conversion is a copy, and in the task repository,
  whose conversion guards every date.
\<close>

theorem update_missing_id_raises_witness:
  "update (base_repo ''notes'' ''id'') 7 (Num 42) [(''title'', Str ''x'')]
      [(1, [(''id'', Num 1), (''title'', Str ''a'')])]
   = (Inl PostUpdateFetchFailed, [(1, [(''id'', Num 1), (''title'', Str ''a'')])])
   \<and> findById (base_repo ''notes'' ''id'') 7 (Num 42)
      [(1, [(''id'', Num 1), (''title'', Str ''a'')])] = Inr None
   \<and> update TaskRepository 7 (Str ''nope'') [(''title'', Str ''abc'')]
      [(1, [(''id'', Str ''t1''), (''title'', Str ''a'')])]
   = (Inl PostUpdateFetchFailed, [(1, [(''id'', Str ''t1''), (''title'', Str ''a'')])])"
proof -
  have conv: "entityToRow TaskRepository 7 [(''title'', Str ''abc'')] =
      Inr [(''title'', Str ''abc''), (''metadata'', Null), (''dueDate'', Null),
           (''createdAt'', IsoText 7), (''updatedAt'', IsoText 7)]"
    by (simp add: TaskRepository_def task_entityToRow_def then_do_def iso_or_def spread_def
        get_def)
  from update_missing_id_raises [of "base_repo ''notes'' ''id''" 7 "[(''title'', Str ''x'')]"
      "[(''title'', Str ''x'')]" "[(1, [(''id'', Num 1), (''title'', Str ''a'')])]" "Num 42"]
    update_missing_id_raises [OF conv, of "[(1, [(''id'', Str ''t1''), (''title'', Str ''a'')])]"
      "Str ''nope''"]
  show ?thesis
    by (simp add: base_repo_def TaskRepository_def get_def sql_eq_def is_null_def)
qed

text \<open>
  C9 as stated fails where the conversion throws: the error of the conversion is the
  result and no statement is sent. The task repository meets an invalid due date with
  a range error; the memory repository, which reads \<open>timestamp\<close> without a guard, meets
  a partial entity that has no \<open>timestamp\<close> with a type error. In both cases the id is
  not stored and the partial entity has a defined field.
\<close>

theorem update_conversion_error_first:
  "update TaskRepository 7 (Str ''nope'') [(''dueDate'', InvalidDate)]
      [(1, [(''id'', Str ''t1''), (''title'', Str ''a'')])]
   = (Inl RangeError, [(1, [(''id'', Str ''t1''), (''title'', Str ''a'')])])
   \<and> update MemoryRepository 7 (Str ''nope'') [(''accessCount'', Num 1)]
      [(1, [(''id'', Str ''m1''), (''content'', Str ''x'')])]
   = (Inl TypeError, [(1, [(''id'', Str ''m1''), (''content'', Str ''x'')])])"
  by (simp add: update_def TaskRepository_def MemoryRepository_def task_entityToRow_def
      memory_entityToRow_def then_do_def iso_or_def get_def)

subsection \<open>Conversion between entities and rows\<close>












subsection \<open>Task status transitions\<close>

lemmas task_eval =
  updateStatus_def getTask_def findById_def db_get_def db_all_def apply_order_def
  apply_limit_def row_matches_def sql_eq_def is_null_def get_def TaskRepository_def
  task_rowToEntity_def then_do_def parse_or_def task_defaults_def spread_def
  or_default_def date_or_def validateStatusTransition_def validTransitions_def
  updateTask_def validateTask_def str_length_def utf16_length_def before_now_def

lemma validate_legal:
  "validateStatusTransition (Str (status_name c)) (Str (status_name s)) =
     (if spec_legal c s then Inr True else Inl InvalidTransition)"
  by (cases c; cases s;
      simp add: validateStatusTransition_def validTransitions_def spec_legal_def
        spec_transitions_def)

lemma findById_Some_row:
  assumes "findById R now ident tbl = Inr (Some ent)"
  shows "filter (row_matches [(primaryKey R, ident)]) (map snd tbl) \<noteq> []"
  using assms
  by (auto simp add: findById_def db_get_def db_all_def apply_order_def apply_limit_def
      split: list.splits)

lemma status_row:
  "st \<noteq> Undefined \<Longrightarrow>
   task_entityToRow now [(''status'', st), (''updatedAt'', DateV now)] =
     Inr [(''status'', st), (''updatedAt'', IsoText now), (''metadata'', Null),
          (''dueDate'', Null), (''createdAt'', IsoText now)]"
  by (simp add: task_entityToRow_def then_do_def iso_or_def spread_def get_def)

lemma task_rowToEntity_null_metadata:
  "get row ''metadata'' = Null \<Longrightarrow> \<exists>ent. task_rowToEntity now row = Inr ent"
  by (simp add: task_rowToEntity_def then_do_def parse_or_def)

lemma task_status_update:
  assumes found: "findById TaskRepository now ident tbl = Inr (Some task)"
    and st: "st \<noteq> Undefined"
  shows "\<exists>ent tbl'. update TaskRepository now ident [(''status'', st), (''updatedAt'', DateV now)] tbl
            = (Inr (Some ent), tbl')
          \<and> map fst tbl' = map fst tbl
          \<and> (\<forall>r \<in> set tbl'. sql_eq (get (snd r) ''id'') ident \<longrightarrow> get (snd r) ''status'' = st)"
proof -
  define sets where "sets = [(''status'', st), (''updatedAt'', IsoText now), (''metadata'', Null),
          (''dueDate'', Null), (''createdAt'', IsoText now)]"
  let ?hit = "\<lambda>r :: int \<times> object. sql_eq (get (snd r) ''id'') ident"
  let ?tbl' = "map (\<lambda>r. if ?hit r then (fst r, spread (snd r) sets) else r) tbl"
  have gsets: "\<And>row k. get (spread row sets) k =
     (if k \<in> {''status'', ''updatedAt'', ''metadata'', ''dueDate'', ''createdAt''}
      then get sets k else get row k)"
    using get_spread [of sets] by (simp add: sets_def)
  have upd: "fst (db_update [''status'', ''updatedAt'', ''metadata'', ''dueDate'', ''createdAt'']
           [st, IsoText now, Null, Null, IsoText now] ''id'' ident tbl) = ?tbl'"
    using st by (simp add: db_update_def Let_def bind_param_def sets_def)
  have keep_id: "\<And>row. get (spread row sets) ''id'' = get row ''id''"
    by (simp add: gsets)
  have m1: "\<And>row. row_matches [(''id'', ident)] row = sql_eq (get row ''id'') ident"
    by (simp add: row_matches_def)
  have filt: "filter (row_matches [(''id'', ident)]) (map snd ?tbl')
      = map (\<lambda>row. spread row sets) (filter (row_matches [(''id'', ident)]) (map snd tbl))"
    by (induction tbl) (auto simp add: m1 keep_id)
  from findById_Some_row [OF found]
  obtain row0 rest where rows: "filter (row_matches [(''id'', ident)]) (map snd tbl) = row0 # rest"
    by (cases "filter (row_matches [(''id'', ident)]) (map snd tbl)")
       (auto simp add: TaskRepository_def)
  have "get (spread row0 sets) ''metadata'' = Null"
    by (simp add: gsets) (simp add: sets_def get_def)
  from task_rowToEntity_null_metadata [OF this, of now]
  obtain ent where ent: "task_rowToEntity now (spread row0 sets) = Inr ent" by blast
  have fb: "findById TaskRepository now ident ?tbl' = Inr (Some ent)"
    using filt rows ent
    by (simp add: findById_def db_get_def db_all_def apply_order_def apply_limit_def
        TaskRepository_def)
  have res: "update TaskRepository now ident [(''status'', st), (''updatedAt'', DateV now)] tbl
            = (Inr (Some ent), ?tbl')"
    using st status_row [OF st, of now] fb upd
    by (simp add: update_def TaskRepository_def Let_def get_def split_beta)
  have ids: "map fst ?tbl' = map fst tbl" by (induction tbl) auto
  have stat: "\<forall>r \<in> set ?tbl'. sql_eq (get (snd r) ''id'') ident \<longrightarrow> get (snd r) ''status'' = st"
    by (auto simp add: keep_id gsets) (simp add: sets_def get_def)
  from res ids stat show ?thesis by blast
qed

text \<open>
  C3, as the code has it. For a stored task whose status is \<open>c\<close> and a requested status
  \<open>s\<close>: a transition outside the table (and not a self-transition) fails with the
  invalid-transition error and the table is left as it was; a transition in the table,
  or a self-transition, goes on to \<open>updateTask\<close>, which fails with the validation
  error, again before any write, when the task with the new status does not pass
  \<open>validateTask\<close> (a title of 3 to 100 UTF-16 code units, a due date not before the
  clock), and otherwise succeeds, returning an entity and leaving every row
  of that id with the status \<open>s\<close>. So \<open>updateStatus\<close> succeeds exactly when the
  transition is legal and the task is valid.
\<close>

theorem updateStatus_transitions:
  assumes "getTask now taskId tbl = Inr task"
    and "get task ''status'' = Str (status_name c)"
  shows "(\<not> spec_legal c s \<longrightarrow>
            updateStatus rt now taskId (Str (status_name s)) tbl = (Inl InvalidTransition, tbl))
       \<and> (spec_legal c s \<and> validateTask rt now (spread task [(''status'', Str (status_name s))]) \<noteq> [] \<longrightarrow>
            updateStatus rt now taskId (Str (status_name s)) tbl = (Inl ValidationError, tbl))
       \<and> (spec_legal c s \<and> validateTask rt now (spread task [(''status'', Str (status_name s))]) = [] \<longrightarrow>
            (\<exists>ent tbl'. updateStatus rt now taskId (Str (status_name s)) tbl = (Inr (Some ent), tbl')
               \<and> map fst tbl' = map fst tbl
               \<and> (\<forall>r \<in> set tbl'. sql_eq (get (snd r) ''id'') taskId
                     \<longrightarrow> get (snd r) ''status'' = Str (status_name s))))"
proof -
  from assms(1) have found: "findById TaskRepository now taskId tbl = Inr (Some task)"
    by (auto simp add: getTask_def split: sum.splits option.splits)
  have sp: "spread [(''status'', Str (status_name s))] [(''updatedAt'', DateV now)]
      = [(''status'', Str (status_name s)), (''updatedAt'', DateV now)]"
    by (simp add: spread_def)
  have ut: "updateTask rt now taskId [(''status'', Str (status_name s))] tbl =
      (if validateTask rt now (spread task [(''status'', Str (status_name s))]) \<noteq> []
       then (Inl ValidationError, tbl)
       else update TaskRepository now taskId
              [(''status'', Str (status_name s)), (''updatedAt'', DateV now)] tbl)"
    using found by (simp add: updateTask_def sp)
  have us: "updateStatus rt now taskId (Str (status_name s)) tbl =
      (if spec_legal c s then updateTask rt now taskId [(''status'', Str (status_name s))] tbl
       else (Inl InvalidTransition, tbl))"
    using assms by (simp add: updateStatus_def validate_legal)
  from task_status_update [OF found, of "Str (status_name s)"]
  show ?thesis by (auto simp add: us ut)
qed

theorem updateStatus_transitions_witness:
  "updateStatus (\<lambda>v. []) 100 (Str ''task-1'') (Str ''REVIEW'')
     [(1, [(''id'', Str ''task-1''), (''title'', Str ''Write report''),
           (''status'', Str ''CREATED''), (''dueDate'', IsoText 500)])]
   = (Inl InvalidTransition,
     [(1, [(''id'', Str ''task-1''), (''title'', Str ''Write report''),
           (''status'', Str ''CREATED''), (''dueDate'', IsoText 500)])])
   \<and> (\<exists>ent tbl'. updateStatus (\<lambda>v. []) 100 (Str ''task-1'') (Str ''PLANNED'')
     [(1, [(''id'', Str ''task-1''), (''title'', Str ''Write report''),
           (''status'', Str ''CREATED''), (''dueDate'', IsoText 500)])]
     = (Inr (Some ent), tbl'))"
proof -
  let ?tbl = "[(1::int, [(''id'', Str ''task-1''), (''title'', Str ''Write report''),
                 (''status'', Str ''CREATED''), (''dueDate'', IsoText 500)])]"
  let ?task = "[(''id'', Str ''task-1''), (''title'', Str ''Write report''),
      (''description'', Str []), (''type'', Str ''DEVELOPMENT''),
      (''status'', Str ''CREATED''), (''priority'', Str ''MEDIUM''),
      (''metadata'', Data (JObj [])), (''createdAt'', DateV 100),
      (''updatedAt'', DateV 100), (''dueDate'', DateV 500)]"
  have g: "getTask 100 (Str ''task-1'') ?tbl = Inr ?task"
    by (simp add: task_eval)
  have st: "get ?task ''status'' = Str (status_name CREATED)"
    by (simp add: get_def)
  have no: "\<not> spec_legal CREATED REVIEW" and yes: "spec_legal CREATED PLANNED"
    by (simp_all add: spec_legal_def spec_transitions_def)
  have ok: "validateTask (\<lambda>v. []) 100 (spread ?task [(''status'', Str (status_name PLANNED))]) = []"
    by (simp add: validateTask_def spread_def get_def str_length_def utf16_length_def before_now_def)
  from updateStatus_transitions [OF g st, where s = REVIEW and rt = "\<lambda>v. []"]
    updateStatus_transitions [OF g st, where s = PLANNED and rt = "\<lambda>v. []"] no yes ok
  show ?thesis by auto
qed

text \<open>
  C3 as stated fails: a task in status CREATED whose due date has passed is asked to
  move to PLANNED, a transition of the table, and \<open>updateStatus\<close> fails with the
  validation error of \<open>updateTask\<close>.
\<close>

theorem updateStatus_legal_transition_rejected:
  "validateStatusTransition (Str ''CREATED'') (Str ''PLANNED'') = Inr True
   \<and> updateStatus (\<lambda>v. []) 100 (Str ''task-1'') (Str ''PLANNED'')
        [(1, [(''id'', Str ''task-1''), (''title'', Str ''Write report''),
              (''status'', Str ''CREATED''), (''dueDate'', IsoText 5)])]
      = (Inl ValidationError,
        [(1, [(''id'', Str ''task-1''), (''title'', Str ''Write report''),
              (''status'', Str ''CREATED''), (''dueDate'', IsoText 5)])])"
  by (simp add: task_eval)



text \<open>
  The title bound of \<open>validateTask\<close> is in UTF-16 code units: the five-character default
  title has length 5 in its 15 bytes, a title of two characters of three bytes each is
  too short, and a title of one letter and one four-byte character (a surrogate pair)
  has length 3 and passes.
\<close>

lemma title_length_in_code_units:
  "utf16_length default_title = 5
   \<and> validateTask rt 100
        [(''id'', Str ''t''), (''title'', Str (map char_of [230, 151, 165, 230, 156, 172 :: nat]))]
      = [TitleLength]
   \<and> validateTask rt 100
        [(''id'', Str ''t''), (''title'', Str (map char_of [97, 240, 159, 152, 128 :: nat]))]
      = []"
  by (simp add: validateTask_def str_length_def utf16_length_def default_title_def get_def
      before_now_def)

subsection \<open>Similarity search\<close>















text \<open>
  Lower-casing reaches the two characters outside ASCII whose lower case has an ASCII
  letter: the Kelvin sign is the token \<open>k\<close>, and U+0130 before \<open>s\<close> gives the tokens
  \<open>i\<close> and \<open>s\<close>, the combining dot between them being a separator.
\<close>

lemma tokenize_beyond_ascii:
  "tokenize (map char_of [226, 132, 170 :: nat]) = [''k'']
   \<and> tokenize (map char_of [196, 176, 115 :: nat]) = [''i'', ''s'']
   \<and> tokenize ''Urgent: deployment-issue  NOW_1'' = [''urgent'', ''deployment'', ''issue'', ''now_1'']"
  by code_simp

subsection \<open>Migration engine\<close>

lemma say_fields [simp]:
  "ledger (say m s) = ledger s" "database (say m s) = database s"
  "migrations (say m s) = migrations s" "logs (say m s) = logs s @ [m]"
  by (simp_all add: say_def)

lemma load_keeps [simp]:
  "ledger (loadMigrations dir s) = ledger s" "database (loadMigrations dir s) = database s"
  by (simp_all add: loadMigrations_def Let_def split: option.splits)

lemma init_fields [simp]:
  "ledger (initMigrationTable s) = Some (ledger_rows s)"
  "database (initMigrationTable s) = database s"
  "migrations (initMigrationTable s) = migrations s"
  "logs (initMigrationTable s) = logs s"
  by (simp_all add: initMigrationTable_def ledger_rows_def split: option.splits)

lemmas rollback_eval =
  migrateDown_def loadMigrations_def initMigrationTable_def getAppliedMigrations_def
  select_rollback_def findIndex_def load_file_def endsWith_def id_of_file_def say_def
  removeMigrationRecord_def sample_up_def sample_down_def sample_dir_def sample_applied_def
  sample_orphan_def Let_def

lemmas apply_eval =
  migrateUp_def loadMigrations_def initMigrationTable_def getAppliedMigrations_def
  getPendingMigrations_def load_file_def endsWith_def id_of_file_def say_def
  recordMigration_def sample_up_def sample_down_def sample_dir_def sample_fresh_def Let_def

lemma findIndex_None: "(\<forall>x \<in> set xs. \<not> P x) \<Longrightarrow> findIndex P xs = None"
  by (simp add: findIndex_def Let_def takeWhile_eq_all_conv [THEN iffD2])

text \<open>
  C5, as the code has it. For a non-empty target id that no applied record carries,
  \<open>migrateDown\<close> returns without raising, leaves the database untouched and the ledger
  with the rows it had (creating the empty table if there was none), and its last log
  entry is the target-not-found message, logged at error level, or, for an empty
  ledger, the nothing-to-roll-back message.
\<close>

theorem migrateDown_unknown_target:
  assumes "t \<noteq> []" and "\<forall>r \<in> set (ledger_rows s). rec_id r \<noteq> t"
  shows "fst (migrateDown dir (Some t) s) = None
       \<and> database (snd (migrateDown dir (Some t) s)) = database s
       \<and> ledger (snd (migrateDown dir (Some t) s)) = Some (ledger_rows s)
       \<and> last (logs (snd (migrateDown dir (Some t) s))) =
           (if ledger_rows s = [] then NothingToRollback else TargetNotFound t)
       \<and> level_of (TargetNotFound t) = ERROR"
proof -
  have "findIndex (\<lambda>m. rec_id m = t) (sort_key rec_id (ledger_rows s)) = None"
    using assms(2) by (intro findIndex_None) simp
  then show ?thesis using assms(1)
    by (simp add: migrateDown_def Let_def getAppliedMigrations_def select_rollback_def)
qed

theorem migrateDown_unknown_target_witness:
  "fst (migrateDown sample_dir (Some ''999'') sample_applied) = None
   \<and> database (snd (migrateDown sample_dir (Some ''999'') sample_applied)) = 1
   \<and> ledger (snd (migrateDown sample_dir (Some ''999'') sample_applied))
       = ledger sample_applied
   \<and> last (logs (snd (migrateDown sample_dir (Some ''999'') sample_applied)))
       = TargetNotFound ''999''"
  using migrateDown_unknown_target [of "''999''" sample_applied sample_dir]
  by (simp add: ledger_rows_def sample_applied_def)

text \<open>
  C5 as stated fails. The empty string is a target id that no applied record carries,
  yet \<open>migrateDown\<close> takes it for an omitted target: the last applied unit is rolled
  back and its ledger entry deleted. And for the unknown id \<open>999\<close> no error is raised.
\<close>

theorem migrateDown_empty_target_rolls_back:
  "ledger sample_applied
     = Some [\<lparr>rec_id = ''001'', rec_filename = ''001-init.ts'', applied_at = 0\<rparr>]
   \<and> ledger (snd (migrateDown sample_dir (Some []) sample_applied)) = Some []
   \<and> database (snd (migrateDown sample_dir (Some []) sample_applied)) = 0
   \<and> fst (migrateDown sample_dir (Some ''999'') sample_applied) = None"
  by (simp add: rollback_eval)

lemma rollback_keeps_unmatched:
  assumes "find (\<lambda>m. m_id m = rec_id r) ms = None"
    and "ledger s = Some l" and "r \<in> set l"
    and "rollback ms recs s = (res, s')"
  shows "\<exists>l'. ledger s' = Some l' \<and> r \<in> set l'"
  using assms
proof (induction recs arbitrary: s l)
  case Nil
  then show ?case by simp
next
  case (Cons x xs)
  show ?case
  proof (cases "find (\<lambda>m. m_id m = rec_id x) ms")
    case None
    with Cons.prems have "rollback ms xs (say (FileNotFound (rec_filename x)) s) = (res, s')"
      by simp
    with Cons.IH [of "say (FileNotFound (rec_filename x)) s" l] Cons.prems show ?thesis by simp
  next
    case (Some m)
    from Cons.prems(1) have "\<forall>m' \<in> set ms. m_id m' \<noteq> rec_id r" by (simp add: find_None_iff)
    moreover from Some have "m \<in> set ms" by (auto simp add: find_Some_iff in_set_conv_nth)
    ultimately have ne: "rec_id r \<noteq> m_id m" by auto
    obtain e db' where d: "down m (database s) = (e, db')" by (cases "down m (database s)")
    show ?thesis
    proof (cases e)
      case None
      let ?s2 = "say (RollbackSucceeded (m_filename m))
           ((say (RollingBack (m_filename m)) s)
              \<lparr>database := db', ledger := Some (filter (\<lambda>r. rec_id r \<noteq> m_id m) l)\<rparr>)"
      from Cons.prems Some d None have run: "rollback ms xs ?s2 = (res, s')"
        by (simp add: removeMigrationRecord_def Let_def)
      have "ledger ?s2 = Some (filter (\<lambda>r. rec_id r \<noteq> m_id m) l)" by simp
      moreover have "r \<in> set (filter (\<lambda>r. rec_id r \<noteq> m_id m) l)" using Cons.prems ne by simp
      ultimately show ?thesis using Cons.IH [OF Cons.prems(1) _ _ run] by blast
    next
      case (Some err)
      with Cons.prems \<open>find _ ms = Some m\<close> d show ?thesis
        by (auto simp add: Let_def)
    qed
  qed
qed

lemma migrateDown_keeps_unmatched:
  assumes "find (\<lambda>m. m_id m = rec_id r) (migrations (loadMigrations dir (initMigrationTable s))) = None"
    and "r \<in> set (ledger_rows s)"
  shows "\<exists>l'. ledger (snd (migrateDown dir target s)) = Some l' \<and> r \<in> set l'"
proof -
  let ?s1 = "loadMigrations dir (initMigrationTable s)"
  let ?applied = "sort_key rec_id (ledger_rows s)"
  have ne: "ledger_rows s \<noteq> []" using assms(2) by auto
  note r = assms(2)
  show ?thesis
  proof (cases "select_rollback target ?applied")
    case None
    with ne show ?thesis using r
      by (auto simp add: migrateDown_def Let_def getAppliedMigrations_def)
  next
    case (Some recs)
    show ?thesis
    proof (cases "recs = []")
      case True
      with Some ne show ?thesis using r
        by (auto simp add: migrateDown_def Let_def getAppliedMigrations_def)
    next
      case False
      let ?s2 = "say (RollingBackCount (length recs)) ?s1"
      obtain res s' where run: "rollback (migrations ?s1) recs ?s2 = (res, s')"
        by (cases "rollback (migrations ?s1) recs ?s2")
      have "ledger ?s2 = Some (ledger_rows s)" by simp
      from rollback_keeps_unmatched [OF assms(1) this assms(2) run]
      obtain l' where "ledger s' = Some l'" "r \<in> set l'" by blast
      with Some ne False run show ?thesis
        by (cases res) (simp_all add: migrateDown_def Let_def getAppliedMigrations_def)
    qed
  qed
qed

text \<open>
  C10. In the rollback loop a record whose id no loaded unit carries is passed over: the
  loop goes on with the remaining records from a state that differs only by a
  warning in the log, so no \<open>down\<close> ran and nothing was deleted for it. Whatever the
  loop, and \<open>migrateDown\<close> as a whole, does afterwards, that record is still in the
  ledger at the end.
\<close>

theorem migrateDown_skips_unmatched:
  assumes "find (\<lambda>m. m_id m = rec_id r) ms = None"
  shows "rollback ms (r # rs) s = rollback ms rs (say (FileNotFound (rec_filename r)) s)
       \<and> level_of (FileNotFound (rec_filename r)) = WARN
       \<and> database (say (FileNotFound (rec_filename r)) s) = database s
       \<and> ledger (say (FileNotFound (rec_filename r)) s) = ledger s
       \<and> (\<forall>recs l res s'. ledger s = Some l \<and> r \<in> set l \<and> rollback ms recs s = (res, s')
            \<longrightarrow> (\<exists>l'. ledger s' = Some l' \<and> r \<in> set l'))
       \<and> (\<forall>dir s0 target. ms = migrations (loadMigrations dir (initMigrationTable s0))
              \<and> r \<in> set (ledger_rows s0)
            \<longrightarrow> (\<exists>l'. ledger (snd (migrateDown dir target s0)) = Some l' \<and> r \<in> set l'))"
  using assms rollback_keeps_unmatched [OF assms] migrateDown_keeps_unmatched [of r _ _ _]
  by auto

theorem migrateDown_skips_unmatched_witness:
  "rollback [\<lparr>m_id = ''001'', m_filename = ''001-init.ts'', up = sample_up, down = sample_down\<rparr>]
     [\<lparr>rec_id = ''002'', rec_filename = ''002-gone.ts'', applied_at = 0\<rparr>,
      \<lparr>rec_id = ''001'', rec_filename = ''001-init.ts'', applied_at = 0\<rparr>] sample_orphan
   = rollback [\<lparr>m_id = ''001'', m_filename = ''001-init.ts'', up = sample_up, down = sample_down\<rparr>]
     [\<lparr>rec_id = ''001'', rec_filename = ''001-init.ts'', applied_at = 0\<rparr>]
     (say (FileNotFound ''002-gone.ts'') sample_orphan)
   \<and> ledger (snd (migrateDown sample_dir (Some ''001'') sample_orphan)) = ledger sample_orphan
   \<and> logs (snd (migrateDown sample_dir (Some ''001'') sample_orphan))
       = [Loaded 1, RollingBackCount 1, FileNotFound ''002-gone.ts'', RollbackDone]
   \<and> ledger (snd (migrateDown sample_dir None sample_orphan)) = ledger sample_orphan"
proof -
  have "find (\<lambda>m. m_id m = rec_id \<lparr>rec_id = ''002'', rec_filename = ''002-gone.ts'', applied_at = 0\<rparr>)
          [\<lparr>m_id = ''001'', m_filename = ''001-init.ts'', up = sample_up, down = sample_down\<rparr>] = None"
    by simp
  from migrateDown_skips_unmatched [OF this, of _ sample_orphan]
  show ?thesis by (simp add: rollback_eval)
qed

lemma load_file_fst:
  "fst (load_file f (ms, lg)) = fst (load_file f (ms, lg'))"
  by (simp add: load_file_def split: import_result.splits option.splits)

lemma load_fold_fst:
  "fst (foldl (\<lambda>acc f. load_file f acc) (ms, lg) files) =
   fst (foldl (\<lambda>acc f. load_file f acc) (ms, lg') files)"
proof (induction files arbitrary: ms lg lg')
  case Nil
  show ?case by simp
next
  case (Cons f files)
  obtain ms1 lg1 where a: "load_file f (ms, lg) = (ms1, lg1)" by (cases "load_file f (ms, lg)")
  obtain ms2 lg2 where b: "load_file f (ms, lg') = (ms2, lg2)" by (cases "load_file f (ms, lg')")
  from a b load_file_fst [of f ms lg lg'] have "ms1 = ms2" by simp
  with a b Cons.IH [of ms1 lg1 lg2] show ?case by simp
qed

lemma load_migrations_again:
  assumes "migrations s' = migrations (loadMigrations dir s)"
  shows "migrations (loadMigrations dir s') = migrations (loadMigrations dir s)"
proof (cases dir)
  case None
  with assms show ?thesis by (simp add: loadMigrations_def)
next
  case (Some entries)
  then show ?thesis
    by (simp add: loadMigrations_def Let_def load_fold_fst [of "[]" "logs s'" _ "logs s"])
qed

lemma apply_pending_ok:
  assumes "apply_pending now ms s = (None, s')" and "ledger s = Some l"
  shows "migrations s' = migrations s
       \<and> (\<exists>l'. ledger s' = Some l' \<and> rec_id ` set l' = rec_id ` set l \<union> m_id ` set ms)"
  using assms
proof (induction ms arbitrary: s l)
  case Nil
  then show ?case by simp
next
  case (Cons m ms)
  obtain e db' where u: "up m (database s) = (e, db')" by (cases "up m (database s)")
  with Cons.prems have e: "e = None" by (cases e) (simp_all add: Let_def)
  let ?s1 = "(say (Applying (m_filename m)) s)\<lparr>database := db'\<rparr>"
  let ?rec = "\<lparr>rec_id = m_id m, rec_filename = m_filename m, applied_at = now\<rparr>"
  obtain e2 s2 where r: "recordMigration now m ?s1 = (e2, s2)"
    by (cases "recordMigration now m ?s1")
  with Cons.prems u e have e2: "e2 = None" by (cases e2) (simp_all add: Let_def)
  from r e2 Cons.prems(2) have s2: "ledger s2 = Some (l @ [?rec])" "migrations s2 = migrations s"
    by (auto simp add: recordMigration_def split: if_splits)
  from Cons.prems u e r e2
  have run: "apply_pending now ms (say (ApplySucceeded (m_filename m)) s2) = (None, s')"
    by (simp add: Let_def)
  from Cons.IH [OF run, of "l @ [?rec]"] s2 show ?case by auto
qed

lemma migrateUp_settles:
  assumes "migrateUp now dir s = (None, s1)"
  shows "settled s1 \<and> migrations s1 = migrations (loadMigrations dir (initMigrationTable s))"
proof -
  let ?sl = "loadMigrations dir (initMigrationTable s)"
  let ?pending = "filter (\<lambda>m. m_id m \<notin> set (map rec_id (sort_key rec_id (ledger_rows s))))
                    (migrations ?sl)"
  have pend: "getPendingMigrations ?sl = Inr ?pending"
    by (simp add: getPendingMigrations_def getAppliedMigrations_def)
  show ?thesis
  proof (cases "?pending = []")
    case True
    with assms pend have "s1 = say NothingToApply ?sl"
      by (simp add: migrateUp_def Let_def)
    moreover from True have "m_id ` set (migrations ?sl) \<subseteq> rec_id ` set (ledger_rows s)"
      by (auto simp add: filter_empty_conv)
    ultimately show ?thesis by (simp add: settled_def)
  next
    case False
    obtain e s2
      where ap: "apply_pending now ?pending (say (ApplyingCount (length ?pending)) ?sl) = (e, s2)"
      by (cases "apply_pending now ?pending (say (ApplyingCount (length ?pending)) ?sl)")
    with assms pend False have e: "e = None" and s1: "s1 = say AllApplied s2"
      by (cases e; simp add: migrateUp_def Let_def)+
    from apply_pending_ok [OF ap [unfolded e], of "ledger_rows s"]
    obtain l' where "migrations s2 = migrations ?sl" "ledger s2 = Some l'"
      "rec_id ` set l' = rec_id ` set (ledger_rows s) \<union> m_id ` set ?pending"
      by auto
    then show ?thesis using s1 by (auto simp add: settled_def)
  qed
qed

lemma settled_init: "settled s \<Longrightarrow> initMigrationTable s = s"
  by (auto simp add: settled_def initMigrationTable_def)

text \<open>
  C4. After a \<open>migrateUp\<close> that succeeded, a second \<open>migrateUp\<close> on the same directory
  finds no pending unit: it succeeds, its final state is the reloaded state plus the
  nothing-to-apply message, so no unit ran and the ledger and the database are as the
  first call left them. \<open>status\<close> after the first and after the second call reports the
  same applied records, those of the ledger, and no pending unit.
\<close>

theorem migrateUp_idempotent:
  assumes "migrateUp now dir s = (None, s1)"
  shows "migrateUp now' dir s1 = (None, say NothingToApply (loadMigrations dir s1))
       \<and> ledger (snd (migrateUp now' dir s1)) = ledger s1
       \<and> database (snd (migrateUp now' dir s1)) = database s1
       \<and> fst (status dir s1) = Inr (sort_key rec_id (ledger_rows s1), [])
       \<and> fst (status dir (snd (migrateUp now' dir s1)))
           = Inr (sort_key rec_id (ledger_rows s1), [])"
proof -
  from migrateUp_settles [OF assms]
  have st: "settled s1"
    and ms: "migrations s1 = migrations (loadMigrations dir (initMigrationTable s))"
    by simp_all
  have init: "initMigrationTable s1 = s1" using st by (rule settled_init)
  have same: "migrations (loadMigrations dir s1) = migrations s1"
    using load_migrations_again [OF ms] ms by simp
  from st obtain l where l: "ledger s1 = Some l" "m_id ` set (migrations s1) \<subseteq> rec_id ` set l"
    by (auto simp add: settled_def)
  then have rows: "ledger_rows s1 = l" by (simp add: ledger_rows_def)
  have pend: "getPendingMigrations (loadMigrations dir s1) = Inr []"
    using l same
    by (auto simp add: getPendingMigrations_def getAppliedMigrations_def filter_empty_conv)
  have up2: "migrateUp now' dir s1 = (None, say NothingToApply (loadMigrations dir s1))"
    using pend init by (simp add: migrateUp_def Let_def)
  let ?s2 = "say NothingToApply (loadMigrations dir s1)"
  have st2: "settled ?s2" using l same by (auto simp add: settled_def)
  have init2: "initMigrationTable ?s2 = ?s2" using st2 by (rule settled_init)
  have same2: "migrations (loadMigrations dir ?s2) = migrations s1"
    using load_migrations_again [of ?s2 dir s1] same by simp
  have pend2: "getPendingMigrations (loadMigrations dir ?s2) = Inr []"
    using l same2
    by (auto simp add: getPendingMigrations_def getAppliedMigrations_def filter_empty_conv)
  have status1: "fst (status dir s1) = Inr (sort_key rec_id l, [])"
    using pend init l by (simp add: status_def Let_def getAppliedMigrations_def)
  have status2: "fst (status dir ?s2) = Inr (sort_key rec_id l, [])"
    using pend2 init2 l by (simp add: status_def Let_def getAppliedMigrations_def)
  show ?thesis using up2 status1 status2 rows l by simp
qed

theorem migrateUp_idempotent_witness:
  "migrateUp 9 sample_dir (snd (migrateUp 5 sample_dir sample_fresh))
     = (None, say NothingToApply
                (loadMigrations sample_dir (snd (migrateUp 5 sample_dir sample_fresh))))
   \<and> ledger (snd (migrateUp 5 sample_dir sample_fresh))
     = Some [\<lparr>rec_id = ''001'', rec_filename = ''001-init.ts'', applied_at = 5\<rparr>]
   \<and> ledger (snd (migrateUp 9 sample_dir (snd (migrateUp 5 sample_dir sample_fresh))))
     = Some [\<lparr>rec_id = ''001'', rec_filename = ''001-init.ts'', applied_at = 5\<rparr>]
   \<and> database (snd (migrateUp 9 sample_dir (snd (migrateUp 5 sample_dir sample_fresh)))) = 1"
proof -
  have "fst (migrateUp 5 sample_dir sample_fresh) = None"
    by (simp add: apply_eval)
  then have a: "migrateUp 5 sample_dir sample_fresh
                  = (None, snd (migrateUp 5 sample_dir sample_fresh))"
    by (simp add: prod_eq_iff)
  have b: "ledger (snd (migrateUp 5 sample_dir sample_fresh))
             = Some [\<lparr>rec_id = ''001'', rec_filename = ''001-init.ts'', applied_at = 5\<rparr>]"
    "database (snd (migrateUp 5 sample_dir sample_fresh)) = 1"
    by (simp_all add: apply_eval)
  from migrateUp_idempotent [OF a, of 9] b show ?thesis by simp
qed

end
